theory Spec2Isabelle
  imports Complex_Main "HOL-Library.Word"
begin

section \<open>Python values, errors and bytes\<close>

text \<open>
  The runtime of \<^verbatim>\<open>decthings_model/run/run.py\<close> is embedded as pure functions over an
  explicit state. A byte is an 8-bit word, a \<^verbatim>\<open>bytes\<close> or \<^verbatim>\<open>bytearray\<close> object a list of
  bytes, a Python \<^verbatim>\<open>str\<close> a list of characters. Every exception the code can raise is a
  value of \<open>pyerror\<close>, and a function that can raise returns \<open>pyerror + 'a\<close>.
\<close>

type_synonym byte = "8 word"
type_synonym bytes = "byte list"

datatype pyerror =
    Exception string
  | UserError string
  | KeyError
  | AttributeError
  | TypeError
  | IndexError
  | OverflowError
  | IncompleteReadError
  | InvalidStateError
  | JSONDecodeError

text \<open>
  The Python values that cross the interfaces of the runtime: arguments of the tracker,
  return values of the model's capabilities, JSON payloads. \<open>PyObj\<close> is an opaque object
  with an identity (an instantiated model written by the user).
\<close>

datatype pyval =
    PyNone
  | PyBool bool
  | PyInt int
  | PyFloat real
  | PyStr string
  | PyBytes bytes
  | PyList "pyval list"
  | PyDict "(string \<times> pyval) list"
  | PyObj nat

section \<open>The outbound frame encoder\<close>

text \<open>\<^verbatim>\<open>int.to_bytes(n, 'big')\<close>: raises OverflowError when the value is negative or
  does not fit into n bytes.\<close>

fun big_endian :: "nat \<Rightarrow> nat \<Rightarrow> bytes" where
  "big_endian 0 v = []"
| "big_endian (Suc n) v = big_endian n (v div 256) @ [of_nat (v mod 256)]"

definition to_bytes :: "int \<Rightarrow> nat \<Rightarrow> pyerror + bytes" where
  "to_bytes v n =
     (if v < 0 \<or> 256 ^ n \<le> v then Inl OverflowError else Inr (big_endian n (nat v)))"

text \<open>\<^verbatim>\<open>int.from_bytes(b, 'big')\<close>.\<close>

definition from_bytes :: "bytes \<Rightarrow> nat" where
  "from_bytes b = foldl (\<lambda>acc x. acc * 256 + unat x) 0 b"

text \<open>\<^verbatim>\<open>buf[a:b] = v\<close> on a bytearray: the slice bounds are clipped to the length of the
  buffer, and the slice is replaced by \<open>v\<close> whatever its length.\<close>

definition slice_assign :: "bytes \<Rightarrow> nat \<Rightarrow> nat \<Rightarrow> bytes \<Rightarrow> bytes" where
  "slice_assign buf a b v = take a buf @ v @ drop (max a b) buf"

text \<open>\<^verbatim>\<open>buf[i] = x\<close> on a bytearray: IndexError out of range.\<close>

definition index_assign :: "bytes \<Rightarrow> nat \<Rightarrow> byte \<Rightarrow> pyerror + bytes" where
  "index_assign buf i x = (if i < length buf then Inr (buf[i := x]) else Inl IndexError)"

text \<open>The loop \<^verbatim>\<open>for el in toSend\<close> of lines 315-318 (and 353-356): it writes the 8-byte
  length and the bytes of each segment at \<open>position\<close> and advances \<open>position\<close>.\<close>

fun write_segments :: "bytes \<Rightarrow> nat \<Rightarrow> bytes list \<Rightarrow> pyerror + (bytes \<times> nat)" where
  "write_segments finalBuffer position [] = Inr (finalBuffer, position)"
| "write_segments finalBuffer position (el # els) =
     (case to_bytes (int (length el)) 8 of
        Inl e \<Rightarrow> Inl e
      | Inr l \<Rightarrow>
          write_segments
            (slice_assign
               (slice_assign finalBuffer position (position + 8) l)
               (position + 8) (position + 8 + length el) el)
            (position + 8 + length el) els)"

text \<open>Lines 306-320 of \<^verbatim>\<open>sendEventToParent\<close>, repeated as lines 344-358 of
  \<^verbatim>\<open>processMessage\<close>: the frame built from the list \<open>toSend\<close>.\<close>

definition encode_frame :: "bytes list \<Rightarrow> pyerror + bytes" where
  "encode_frame toSend =
     (let argsTotalSize = sum_list (map length toSend);
          finalBuffer = replicate (6 + length toSend * 8 + argsTotalSize) (0 :: byte)
      in case index_assign finalBuffer 0 0 of
           Inl e \<Rightarrow> Inl e
         | Inr finalBuffer \<Rightarrow>
             (case to_bytes (int (length toSend) - 1) 4 of
                Inl e \<Rightarrow> Inl e
              | Inr c \<Rightarrow>
                  (case write_segments (slice_assign finalBuffer 1 5 c) 5 toSend of
                     Inl e \<Rightarrow> Inl e
                   | Inr (finalBuffer, position) \<Rightarrow> index_assign finalBuffer position 0)))"

section \<open>The inbound frame decoder\<close>

text \<open>
  The socket is a byte source; the bytes delivered before end of stream are a list.
  \<^verbatim>\<open>reader.readexactly(n)\<close> returns the next n bytes and the rest of the stream, and raises
  IncompleteReadError when the stream ends before n bytes have arrived.
\<close>

definition readexactly :: "nat \<Rightarrow> bytes \<Rightarrow> pyerror + (bytes \<times> bytes)" where
  "readexactly n s =
     (if length s < n then Inl IncompleteReadError else Inr (take n s, drop n s))"

text \<open>What one turn of the loop of \<^verbatim>\<open>inner_main\<close> hands on: the single segment of a
  control frame, given to \<^verbatim>\<open>processMessage\<close>, or the request id and the segments of a
  data frame, given to \<^verbatim>\<open>onDataProvided\<close>.\<close>

datatype message = RPC bytes | ProvideData nat "bytes list"

text \<open>The loop \<^verbatim>\<open>for i in range(num_segments)\<close> of lines 382-385.\<close>

fun read_segments :: "nat \<Rightarrow> bytes \<Rightarrow> pyerror + (bytes list \<times> bytes)" where
  "read_segments 0 s = Inr ([], s)"
| "read_segments (Suc n) s =
     (case readexactly 8 s of
        Inl e \<Rightarrow> Inl e
      | Inr (l, s1) \<Rightarrow>
          (case readexactly (from_bytes l) s1 of
             Inl e \<Rightarrow> Inl e
           | Inr (segment_data, s2) \<Rightarrow>
               (case read_segments n s2 of
                  Inl e \<Rightarrow> Inl e
                | Inr (data, s3) \<Rightarrow> Inr (segment_data # data, s3))))"

text \<open>One turn of the \<^verbatim>\<open>while True\<close> loop of \<^verbatim>\<open>inner_main\<close> (lines 370-386).\<close>

definition read_message :: "bytes \<Rightarrow> pyerror + (message \<times> bytes)" where
  "read_message s =
     (case readexactly 1 s of
        Inl e \<Rightarrow> Inl e
      | Inr (b, s1) \<Rightarrow>
          if b = [0] then
            (case readexactly 8 s1 of
               Inl e \<Rightarrow> Inl e
             | Inr (l, s2) \<Rightarrow>
                 (case readexactly (from_bytes l) s2 of
                    Inl e \<Rightarrow> Inl e
                  | Inr (segment_data, s3) \<Rightarrow> Inr (RPC segment_data, s3)))
          else
            (case readexactly 4 s1 of
               Inl e \<Rightarrow> Inl e
             | Inr (r, s2) \<Rightarrow>
                 (case readexactly 4 s2 of
                    Inl e \<Rightarrow> Inl e
                  | Inr (n, s3) \<Rightarrow>
                      (case read_segments (from_bytes n) s3 of
                         Inl e \<Rightarrow> Inl e
                       | Inr (data, s4) \<Rightarrow> Inr (ProvideData (from_bytes r) data, s4)))))"

text \<open>The segments a decoded message carries.\<close>

fun segments_of :: "message \<Rightarrow> bytes list" where
  "segments_of (RPC segment_data) = [segment_data]"
| "segments_of (ProvideData request_id data) = data"

section \<open>The state of the runtime\<close>

text \<open>
  User code is an external collaborator: a call into it either raises, and then
  \<^verbatim>\<open>traceback.format_exc()\<close> gives the text of the traceback, or returns a value.
\<close>

datatype 'a outcome = Raised string | Returned 'a

text \<open>A cancellation callback of user code: a name to tell callbacks apart, and the
  exception it raises when called, if any.\<close>

datatype callback = Callback (cb_name: nat) (cb_raises: "pyerror option")

text \<open>
  The trace of the calls that leave \<^verbatim>\<open>run.py\<close>: cancellation callbacks and capabilities of
  the user's model, with the model (and for \<^verbatim>\<open>train\<close> the tracker) they are called on,
  and the constructors imported from \<^verbatim>\<open>dataloader.py\<close>, of which only the calls are recorded.
\<close>

datatype call =
    Cancel nat
  | CreateDataLoaderMap
  | CreateStateLoaderMap
  | CreateStateProvider
  | UserCreateModelState
  | UserInstantiateModel
  | UserTrain pyval nat
  | UserEvaluate pyval
  | UserGetModelState pyval
  | UserDispose pyval

text \<open>An object of class \<^verbatim>\<open>TrainTracker\<close>. The attribute \<^verbatim>\<open>cancelled\<close> is not set by
  \<^verbatim>\<open>__init__\<close>: it is absent until \<^verbatim>\<open>callCancelTrain\<close> assigns it.\<close>

record TrainTracker =
  tracker_id :: string
  on_cancel_list :: "callback list"
  complete :: bool
  cancelled :: "bool option"

text \<open>
  The objects one call of \<^verbatim>\<open>callInstantiateModel\<close> creates and shares between its own
  frame, the closure \<^verbatim>\<open>dispose\<close> and the dict \<^verbatim>\<open>instantiatedModels\<close>: the variable
  \<^verbatim>\<open>disposed\<close>, the future \<^verbatim>\<open>modelFuture\<close>, and the dict \<^verbatim>\<open>stored\<close> with its two entries.
  \<^verbatim>\<open>stored["model"]\<close> is the future itself or the instantiated model;
  \<^verbatim>\<open>stored["dispose"]\<close> is the closure \<^verbatim>\<open>dispose\<close> or the closure \<^verbatim>\<open>dispose2\<close>.
\<close>

datatype future = Pending | Done pyval

datatype stored_model = TheFuture | TheModel pyval

datatype stored_dispose = Dispose | Dispose2 pyval

record handle =
  disposed :: bool
  modelFuture :: future
  stored_model :: stored_model
  stored_dispose :: stored_dispose

text \<open>
  The module state. Objects are addressed by references, so that the aliasing of the
  source is kept: \<open>instantiatedModels\<close> maps an id to the reference of a \<^verbatim>\<open>stored\<close> dict,
  \<open>trainingSessions\<close> an id to the reference of a tracker. \<open>outbox\<close> is the list of the
  messages given to \<^verbatim>\<open>sendMessageToParent\<close>, in order. \<open>pending\<close> stands for
  the state of \<^verbatim>\<open>dataloader.py\<close> (the requests waiting for data), which \<^verbatim>\<open>run.py\<close> reaches
  only through the functions it imports.
\<close>

record 'p world =
  runningProgram :: pyval
  instantiatedModels :: "string \<rightharpoonup> nat"
  trainingSessions :: "string \<rightharpoonup> nat"
  handles :: "nat \<Rightarrow> handle"
  trackers :: "nat \<Rightarrow> TrainTracker"
  next_ref :: nat
  outbox :: "bytes list"
  calls :: "call list"
  pending :: 'p

text \<open>The parameters of a control call (the dict \<^verbatim>\<open>args\<close>), with the keys the handlers
  read. The key \<^verbatim>\<open>"id"\<close> is absent in a one-way call.\<close>

record args =
  arg_id :: "pyval option"
  instantiatedModelId :: string
  trainingSessionId :: string
  otherModelStates :: "string list"

text \<open>What a handler returns: the dict with \<^verbatim>\<open>"result"\<close> and, from \<^verbatim>\<open>callEvaluate\<close>,
  \<^verbatim>\<open>"alsoSend"\<close>. The handlers that are plain functions return \<^verbatim>\<open>None\<close>.\<close>

record response =
  result :: pyval
  alsoSend :: "bytes list option"

type_synonym 'p returned = "(pyerror + response option) \<times> 'p world"

definition instantiated_model_not_found :: response where
  "instantiated_model_not_found =
     \<lparr>result = PyDict [(''error'', PyStr ''instantiated_model_not_found'')], alsoSend = None\<rparr>"

definition empty_result :: response where
  "empty_result = \<lparr>result = PyDict [], alsoSend = None\<rparr>"

section \<open>Sending to the host\<close>

definition sendMessageToParent :: "bytes \<Rightarrow> 'p world \<Rightarrow> 'p world" where
  "sendMessageToParent message w = w\<lparr>outbox := outbox w @ [message]\<rparr>"

text \<open>\<^verbatim>\<open>json.dumps(...).encode()\<close> is the parameter \<open>dumps\<close>. In the handlers, the
  parameter \<open>format_exc\<close> is \<^verbatim>\<open>traceback.format_exc()\<close> for an exception that \<^verbatim>\<open>run.py\<close>
  itself raises inside a \<^verbatim>\<open>try\<close>; the traceback of an exception of user code comes with
  its outcome.\<close>

definition sendEventToParent ::
  "(pyval \<Rightarrow> bytes) \<Rightarrow> string \<Rightarrow> pyval \<Rightarrow> bytes list \<Rightarrow> 'p world \<Rightarrow> (pyerror + unit) \<times> 'p world" where
  "sendEventToParent dumps event params additionalSegments w =
     (let toSend = dumps (PyDict [(''event'', PyStr event), (''params'', params)]) # additionalSegments
      in case encode_frame toSend of
           Inl e \<Rightarrow> (Inl e, w)
         | Inr finalBuffer \<Rightarrow> (Inr (), sendMessageToParent finalBuffer w))"

text \<open>\<^verbatim>\<open>sendDataEventToParent\<close>, which \<^verbatim>\<open>dataloader.py\<close> is given to ask for data: the tag 1,
  the length of the JSON on 8 bytes, the JSON.\<close>

definition sendDataEventToParent ::
  "(pyval \<Rightarrow> bytes) \<Rightarrow> pyval \<Rightarrow> 'p world \<Rightarrow> (pyerror + unit) \<times> 'p world" where
  "sendDataEventToParent dumps event w =
     (let encoded = dumps event
      in case to_bytes 1 1 of
           Inl e \<Rightarrow> (Inl e, w)
         | Inr tag \<Rightarrow>
             (case to_bytes (int (length encoded)) 8 of
                Inl e \<Rightarrow> (Inl e, w)
              | Inr l \<Rightarrow> (Inr (), sendMessageToParent (tag @ l @ encoded) w)))"

section \<open>The training tracker\<close>

definition TrainTracker_init :: "string \<Rightarrow> TrainTracker" where
  "TrainTracker_init i = \<lparr>tracker_id = i, on_cancel_list = [], complete = False, cancelled = None\<rparr>"

definition on_cancel :: "callback \<Rightarrow> TrainTracker \<Rightarrow> TrainTracker" where
  "on_cancel cb self = self\<lparr>on_cancel_list := on_cancel_list self @ [cb]\<rparr>"

text \<open>\<^verbatim>\<open>str(type(x))\<close>.\<close>

fun type_str :: "pyval \<Rightarrow> string" where
  "type_str PyNone = ''<class 'NoneType'>''"
| "type_str (PyBool b) = ''<class 'bool'>''"
| "type_str (PyInt i) = ''<class 'int'>''"
| "type_str (PyFloat f) = ''<class 'float'>''"
| "type_str (PyStr s) = ''<class 'str'>''"
| "type_str (PyBytes b) = ''<class 'bytes'>''"
| "type_str (PyList l) = ''<class 'list'>''"
| "type_str (PyDict d) = ''<class 'dict'>''"
| "type_str (PyObj n) = ''<class 'object'>''"

text \<open>\<^verbatim>\<open>type(progress) == int or type(progress) == float\<close>: a bool is neither.\<close>

fun int_or_float :: "pyval \<Rightarrow> bool" where
  "int_or_float (PyInt i) = True"
| "int_or_float (PyFloat f) = True"
| "int_or_float v = False"

definition progress ::
  "(pyval \<Rightarrow> bytes) \<Rightarrow> TrainTracker \<Rightarrow> pyval \<Rightarrow> 'p world \<Rightarrow> (pyerror + unit) \<times> 'p world" where
  \<open>progress dumps self p w =
     (if complete self then
        (Inl (Exception ''TrainTracker progress: Cannot report progress after the training session was completed.''), w)
      else if \<not> int_or_float p then
        (Inl (Exception (''TrainTracker progress: Invalid argument passed to progress(). Parameter "progress" must be an int or float, not ''
                          @ type_str p @ ''.'')), w)
      else sendEventToParent dumps ''trainingProgress''
             (PyDict [(''trainingSessionId'', PyStr (tracker_id self)), (''progress'', p)]) [] w)\<close>

text \<open>The loop \<^verbatim>\<open>for metric in metrics\<close> of lines 41-49.\<close>

fun collect_metrics ::
  "pyval list \<Rightarrow> string list \<Rightarrow> bytes list \<Rightarrow> pyerror + (string list \<times> bytes list)" where
  \<open>collect_metrics [] nameslist byteslist = Inr (nameslist, byteslist)\<close>
| \<open>collect_metrics (metric # rest) nameslist byteslist =
     (case metric of
        PyDict d \<Rightarrow>
          (case map_of d ''name'' of
             Some (PyStr name) \<Rightarrow>
               (case map_of d ''value'' of
                  Some (PyBytes v) \<Rightarrow> collect_metrics rest (nameslist @ [name]) (byteslist @ [v])
                | _ \<Rightarrow> Inl (Exception ''TrainTracker metrics: Invalid argument passed to metrics(). Expected each element of list "metrics" to contain a field "value" that is bytes.''))
           | _ \<Rightarrow> Inl (Exception ''TrainTracker metrics: Invalid argument passed to metrics(). Expected each element of list "metrics" to contain a field "name" that is a string.''))
      | _ \<Rightarrow> Inl (Exception ''TrainTracker metrics: Invalid argument passed to metrics(). Expected each element of list "metrics" to be a dict.''))\<close>

definition metrics ::
  "(pyval \<Rightarrow> bytes) \<Rightarrow> TrainTracker \<Rightarrow> pyval \<Rightarrow> 'p world \<Rightarrow> (pyerror + unit) \<times> 'p world" where
  \<open>metrics dumps self m w =
     (if complete self then
        (Inl (Exception ''TrainTracker metrics: Cannot report metrics after the training session was completed.''), w)
      else case m of
        PyList ms \<Rightarrow>
          if length ms = 0 then (Inr (), w)
          else (case collect_metrics ms [] [] of
                  Inl e \<Rightarrow> (Inl e, w)
                | Inr (nameslist, byteslist) \<Rightarrow>
                    sendEventToParent dumps ''trainingMetrics''
                      (PyDict [(''trainingSessionId'', PyStr (tracker_id self)),
                               (''names'', PyList (map PyStr nameslist))]) byteslist w)
      | _ \<Rightarrow>
        (Inl (Exception (''TrainTracker metrics: Invalid argument passed to metrics(). Parameter "metrics" must be a list, not ''
                          @ type_str m @ ''.'')), w))\<close>

section \<open>Errors of user code\<close>

text \<open>\<^verbatim>\<open>str(n)\<close> for a natural number: its decimal digits.\<close>

function str_nat :: "nat \<Rightarrow> string" where
  "str_nat n =
     (if n < 10 then [''0123456789'' ! n] else str_nat (n div 10) @ [''0123456789'' ! (n mod 10)])"
  by pat_completeness auto
termination
  by (relation "measure id") auto

declare str_nat.simps [simp del]

text \<open>\<^verbatim>\<open>getErrorFromException\<close>; the argument is what \<^verbatim>\<open>traceback.format_exc()\<close> returns.\<close>

definition getErrorFromException :: "string \<Rightarrow> pyval" where
  "getErrorFromException format_exc =
     (let err_str = format_exc;
          err_str = (if length err_str > 10000
                     then take 10000 err_str
                          @ '' (exception shortened - actual exception contained ''
                          @ str_nat (length err_str - 10000) @ '' more characters)''
                     else err_str)
      in PyDict [(''code'', PyStr ''exception''), (''details'', PyStr err_str)])"

section \<open>The handlers of the control calls\<close>

text \<open>
  A handler that is a coroutine runs until it awaits something that is not ready, and
  other handlers run in between. Each coroutine is therefore cut at its \<^verbatim>\<open>await\<close>s into
  functions on the state: \<open>_begin\<close> runs from the call to the first \<^verbatim>\<open>await\<close>, \<open>_model\<close>
  resumes after \<^verbatim>\<open>await instantiatedModel["model"]\<close>, \<open>_finish\<close> resumes after the
  \<^verbatim>\<open>await\<close> of the user's result with its outcome. A function that stops at an \<^verbatim>\<open>await\<close>
  says what the coroutine waits for.
\<close>

datatype status =
    Return "pyerror + response option"
  | AwaitModel nat
  | AwaitUser

definition record_call :: "call \<Rightarrow> 'p world \<Rightarrow> 'p world" where
  "record_call c w = w\<lparr>calls := calls w @ [c]\<rparr>"

definition error_result :: "string \<Rightarrow> response" where
  "error_result format_exc =
     \<lparr>result = PyDict [(''error'', getErrorFromException format_exc)], alsoSend = None\<rparr>"

text \<open>\<^verbatim>\<open>del d[k]\<close>: KeyError when the key is absent.\<close>

definition del_item :: "('k \<rightharpoonup> 'v) \<Rightarrow> 'k \<Rightarrow> pyerror + ('k \<rightharpoonup> 'v)" where
  "del_item d k = (if k \<in> dom d then Inr (d(k := None)) else Inl KeyError)"

text \<open>\<^verbatim>\<open>modelFuture.set_result(v)\<close> on the future of handle \<open>h\<close>: InvalidStateError when
  the future is done already.\<close>

definition set_result :: "nat \<Rightarrow> pyval \<Rightarrow> 'p world \<Rightarrow> (pyerror + unit) \<times> 'p world" where
  "set_result h v w =
     (case modelFuture (handles w h) of
        Done u \<Rightarrow> (Inl InvalidStateError, w)
      | Pending \<Rightarrow> (Inr (), w\<lparr>handles := (handles w)(h := (handles w h)\<lparr>modelFuture := Done v\<rparr>)\<rparr>))"

text \<open>
  A capability of user code is called as \<^verbatim>\<open>x["name"](...)\<close> when \<^verbatim>\<open>x\<close> is a dict and as
  \<^verbatim>\<open>x.name(...)\<close> otherwise. An opaque object stands for user code that has the capability;
  a dict has it when its entry is such an object. For any other value the lookup or the
  call raises before user code is reached: \<open>Some\<close> of the exception, \<open>None\<close> when the
  call enters user code.
\<close>

fun capability :: "pyval \<Rightarrow> string \<Rightarrow> pyerror option" where
  "capability (PyObj n) name = None"
| "capability (PyDict d) name =
     (case map_of d name of
        None \<Rightarrow> Some KeyError
      | Some (PyObj f) \<Rightarrow> None
      | Some v \<Rightarrow> Some TypeError)"
| "capability v name = Some AttributeError"

subsection \<open>initialize\<close>

text \<open>The argument \<open>loaded\<close> is the outcome of loading the user's module (lines 62-71).\<close>

definition initialize :: "(pyval \<Rightarrow> bytes) \<Rightarrow> pyval outcome \<Rightarrow> 'p world \<Rightarrow> 'p returned" where
  "initialize dumps loaded w =
     (case loaded of
        Raised format_exc \<Rightarrow>
          (case sendEventToParent dumps ''modelSessionInitialized''
                  (PyDict [(''error'', getErrorFromException format_exc)]) [] w of
             (Inl e, w1) \<Rightarrow> (Inl e, w1)
           | (Inr u, w1) \<Rightarrow> (Inr None, w1))
      | Returned model \<Rightarrow>
          (case sendEventToParent dumps ''modelSessionInitialized'' (PyDict [])
                  [] (w\<lparr>runningProgram := model\<rparr>) of
             (Inl e, w1) \<Rightarrow> (Inl e, w1)
           | (Inr u, w1) \<Rightarrow> (Inr None, w1)))"

subsection \<open>callCreateModelState\<close>

definition callCreateModelState ::
  "(pyerror \<Rightarrow> string) \<Rightarrow> pyval outcome \<Rightarrow> args \<Rightarrow> 'p world \<Rightarrow> 'p returned" where
  "callCreateModelState format_exc res args w =
     (let w1 = record_call CreateDataLoaderMap w
      in case arg_id args of
           None \<Rightarrow> (Inl KeyError, w1)
         | Some i \<Rightarrow>
             (let w2 = record_call CreateStateProvider w1;
                  w3 = fold (\<lambda>other_model_state. record_call CreateStateLoaderMap)
                         (otherModelStates args) w2
              in case capability (runningProgram w3) ''createModelState'' of
                   Some e \<Rightarrow> (Inr (Some (error_result (format_exc e))), w3)
                 | None \<Rightarrow>
                     (let w4 = record_call UserCreateModelState w3
                      in case res of
                           Returned v \<Rightarrow> (Inr (Some empty_result), w4)
                         | Raised tb \<Rightarrow> (Inr (Some (error_result tb)), w4))))"

subsection \<open>callInstantiateModel\<close>

text \<open>The closure \<^verbatim>\<open>dispose\<close> (lines 104-108) of the call that created handle \<open>h\<close> for the
  id \<open>mid\<close>.\<close>

definition dispose :: "string \<Rightarrow> nat \<Rightarrow> 'p world \<Rightarrow> (pyerror + unit) \<times> 'p world" where
  "dispose mid h w =
     (let w1 = w\<lparr>handles := (handles w)(h := (handles w h)\<lparr>disposed := True\<rparr>)\<rparr>
      in case del_item (instantiatedModels w1) mid of
           Inl e \<Rightarrow> (Inl e, w1)
         | Inr d \<Rightarrow> set_result h PyNone (w1\<lparr>instantiatedModels := d\<rparr>))"

text \<open>The closure \<^verbatim>\<open>dispose2\<close> (lines 140-144): it calls the \<^verbatim>\<open>dispose\<close> capability of the
  model, outside any \<^verbatim>\<open>try\<close>; \<open>res\<close> is the outcome of that call.\<close>

definition dispose2 :: "pyval outcome \<Rightarrow> pyval \<Rightarrow> 'p world \<Rightarrow> (pyerror + unit) \<times> 'p world" where
  "dispose2 res awaitedres w =
     (case capability awaitedres ''dispose'' of
        Some e \<Rightarrow> (Inl e, w)
      | None \<Rightarrow>
          (let w1 = record_call (UserDispose awaitedres) w
           in case res of
                Raised tb \<Rightarrow> (Inl (UserError tb), w1)
              | Returned v \<Rightarrow> (Inr (), w1)))"

text \<open>Lines 100-124: a new handle is created and stored under the id, and the user's
  \<^verbatim>\<open>instantiateModel\<close> is looked up in \<^verbatim>\<open>runningProgram\<close> and called. The reference of the
  handle is returned with the state, and the exception when the call did not reach user
  code: the coroutine then goes on at once as for an outcome \<open>Raised\<close>.\<close>

definition callInstantiateModel_begin ::
  "args \<Rightarrow> 'p world \<Rightarrow> nat \<times> pyerror option \<times> 'p world" where
  "callInstantiateModel_begin args w =
     (let h = next_ref w;
          stored = \<lparr>disposed = False, modelFuture = Pending,
                    stored_model = TheFuture, stored_dispose = Dispose\<rparr>;
          w1 = w\<lparr>next_ref := Suc h, handles := (handles w)(h := stored)\<rparr>;
          w2 = w1\<lparr>instantiatedModels := (instantiatedModels w1)(instantiatedModelId args \<mapsto> h)\<rparr>;
          w3 = record_call CreateStateLoaderMap w2
      in case capability (runningProgram w3) ''instantiateModel'' of
           Some e \<Rightarrow> (h, Some e, w3)
         | None \<Rightarrow> (h, None, record_call UserInstantiateModel w3))"

text \<open>Lines 126-150: the coroutine resumes with the outcome \<open>res\<close> of the user's
  \<^verbatim>\<open>instantiateModel\<close>; \<open>dres\<close> is the outcome of the model's \<^verbatim>\<open>dispose\<close>, should
  \<^verbatim>\<open>dispose2\<close> be called.\<close>

definition callInstantiateModel_finish ::
  "pyval outcome \<Rightarrow> pyval outcome \<Rightarrow> args \<Rightarrow> nat \<Rightarrow> 'p world \<Rightarrow> 'p returned" where
  "callInstantiateModel_finish dres res args h w =
     (case res of
        Raised tb \<Rightarrow>
          if \<not> disposed (handles w h) then
            (case del_item (instantiatedModels w) (instantiatedModelId args) of
               Inl e \<Rightarrow> (Inl e, w)
             | Inr d \<Rightarrow>
                 (case set_result h PyNone (w\<lparr>instantiatedModels := d\<rparr>) of
                    (Inl e, w1) \<Rightarrow> (Inl e, w1)
                  | (Inr u, w1) \<Rightarrow> (Inr (Some (error_result tb)), w1)))
          else (Inr (Some (error_result tb)), w)
      | Returned awaitedres \<Rightarrow>
          (let w1 = w\<lparr>handles := (handles w)(h := (handles w h)\<lparr>stored_model := TheModel awaitedres\<rparr>)\<rparr>
           in if disposed (handles w1 h) then
                (case dispose2 dres awaitedres w1 of
                   (Inl e, w2) \<Rightarrow> (Inl e, w2)
                 | (Inr u, w2) \<Rightarrow> (Inr (Some empty_result), w2))
              else
                (case set_result h awaitedres
                        (w1\<lparr>handles := (handles w1)(h := (handles w1 h)\<lparr>stored_dispose := Dispose2 awaitedres\<rparr>)\<rparr>) of
                   (Inl e, w2) \<Rightarrow> (Inl e, w2)
                 | (Inr u, w2) \<Rightarrow> (Inr (Some empty_result), w2))))"

text \<open>The whole coroutine when nothing runs between the call of the user's
  \<^verbatim>\<open>instantiateModel\<close> and its result.\<close>

definition callInstantiateModel ::
  "(pyerror \<Rightarrow> string) \<Rightarrow> pyval outcome \<Rightarrow> pyval outcome \<Rightarrow> args \<Rightarrow> 'p world
     \<Rightarrow> 'p returned" where
  "callInstantiateModel format_exc dres res args w =
     (case callInstantiateModel_begin args w of
        (h, None, w1) \<Rightarrow> callInstantiateModel_finish dres res args h w1
      | (h, Some e, w1) \<Rightarrow> callInstantiateModel_finish dres (Raised (format_exc e)) args h w1)"

subsection \<open>callDisposeInstantiatedModel\<close>

text \<open>Line 156 is the expression \<^verbatim>\<open>instantiatedModel["dispose"]\<close>: it reads the entry of the
  dict, which both creators of it define, and drops the value: nothing is called.\<close>

definition callDisposeInstantiatedModel :: "args \<Rightarrow> 'p world \<Rightarrow> 'p returned" where
  "callDisposeInstantiatedModel args w =
     (case instantiatedModels w (instantiatedModelId args) of
        Some instantiatedModel \<Rightarrow>
          (case del_item (instantiatedModels w) (instantiatedModelId args) of
             Inl e \<Rightarrow> (Inl e, w)
           | Inr d \<Rightarrow> (Inr None, w\<lparr>instantiatedModels := d\<rparr>))
      | None \<Rightarrow> (Inr None, w))"

subsection \<open>callTrain\<close>

text \<open>Lines 181-193: the end of the coroutine, with the outcome \<open>res\<close> of the model's
  \<^verbatim>\<open>train\<close>.\<close>

definition callTrain_finish :: "pyval outcome \<Rightarrow> args \<Rightarrow> nat \<Rightarrow> 'p world \<Rightarrow> 'p returned" where
  "callTrain_finish res args t w =
     (let w1 = w\<lparr>trackers := (trackers w)(t := (trackers w t)\<lparr>complete := True\<rparr>)\<rparr>
      in case del_item (trainingSessions w1) (trainingSessionId args) of
           Inl e \<Rightarrow> (Inl e, w1)
         | Inr d \<Rightarrow>
             (case res of
                Raised tb \<Rightarrow> (Inr (Some (error_result tb)), w1\<lparr>trainingSessions := d\<rparr>)
              | Returned v \<Rightarrow> (Inr (Some empty_result), w1\<lparr>trainingSessions := d\<rparr>)))"

text \<open>Lines 173-179: the data loaders are created and the model's \<^verbatim>\<open>train\<close> is looked up
  and called with the tracker \<open>t\<close>; when the call does not reach user code, the
  \<^verbatim>\<open>except\<close> branch ends the coroutine at once.\<close>

definition callTrain_run ::
  "(pyerror \<Rightarrow> string) \<Rightarrow> args \<Rightarrow> nat \<Rightarrow> pyval \<Rightarrow> 'p world \<Rightarrow> status \<times> 'p world" where
  "callTrain_run format_exc args t model w =
     (let w1 = record_call CreateDataLoaderMap w
      in case capability model ''train'' of
           Some e \<Rightarrow>
             (case callTrain_finish (Raised (format_exc e)) args t w1 of (r, w2) \<Rightarrow> (Return r, w2))
         | None \<Rightarrow> (AwaitUser, record_call (UserTrain model t) w1))"

text \<open>Lines 159-171. The reference of the new tracker is returned with the status.\<close>

definition callTrain_begin ::
  "(pyerror \<Rightarrow> string) \<Rightarrow> args \<Rightarrow> 'p world \<Rightarrow> nat \<times> status \<times> 'p world" where
  "callTrain_begin format_exc args w =
     (let t = next_ref w;
          tracker = TrainTracker_init (trainingSessionId args);
          w1 = w\<lparr>next_ref := Suc t, trackers := (trackers w)(t := tracker)\<rparr>;
          w2 = w1\<lparr>trainingSessions := (trainingSessions w1)(trainingSessionId args \<mapsto> t)\<rparr>
      in case instantiatedModels w2 (instantiatedModelId args) of
           None \<Rightarrow> (t, Return (Inr (Some instantiated_model_not_found)), w2)
         | Some instantiatedModel \<Rightarrow>
             (case stored_model (handles w2 instantiatedModel) of
                TheFuture \<Rightarrow> (t, AwaitModel instantiatedModel, w2)
              | TheModel model \<Rightarrow> (t, callTrain_run format_exc args t model w2)))"

text \<open>Lines 167-169: resumed at \<^verbatim>\<open>await instantiatedModel["model"]\<close>; the coroutine keeps
  waiting while the future is pending.\<close>

definition callTrain_model ::
  "(pyerror \<Rightarrow> string) \<Rightarrow> args \<Rightarrow> nat \<Rightarrow> nat \<Rightarrow> 'p world \<Rightarrow> status \<times> 'p world" where
  "callTrain_model format_exc args t instantiatedModel w =
     (case modelFuture (handles w instantiatedModel) of
        Pending \<Rightarrow> (AwaitModel instantiatedModel, w)
      | Done model \<Rightarrow>
          if model = PyNone then (Return (Inr (Some instantiated_model_not_found)), w)
          else callTrain_run format_exc args t model w)"

text \<open>The whole coroutine when nothing else runs in between; \<open>None\<close> when it waits for a
  future that is pending, which nothing would resolve then.\<close>

definition callTrain ::
  "(pyerror \<Rightarrow> string) \<Rightarrow> pyval outcome \<Rightarrow> args \<Rightarrow> 'p world \<Rightarrow> 'p returned option" where
  "callTrain format_exc res args w =
     (case callTrain_begin format_exc args w of
        (t, Return r, w1) \<Rightarrow> Some (r, w1)
      | (t, AwaitUser, w1) \<Rightarrow> Some (callTrain_finish res args t w1)
      | (t, AwaitModel instantiatedModel, w1) \<Rightarrow>
          (case callTrain_model format_exc args t instantiatedModel w1 of
             (Return r, w2) \<Rightarrow> Some (r, w2)
           | (AwaitUser, w2) \<Rightarrow> Some (callTrain_finish res args t w2)
           | (AwaitModel m, w2) \<Rightarrow> None))"

subsection \<open>callCancelTrain\<close>

text \<open>The loop \<^verbatim>\<open>for cancel in tracker._on_cancel: cancel()\<close>: an exception of a callback
  leaves the loop.\<close>

fun run_callbacks :: "callback list \<Rightarrow> 'p world \<Rightarrow> (pyerror + unit) \<times> 'p world" where
  "run_callbacks [] w = (Inr (), w)"
| "run_callbacks (cancel # rest) w =
     (let w1 = record_call (Cancel (cb_name cancel)) w
      in case cb_raises cancel of
           Some e \<Rightarrow> (Inl e, w1)
         | None \<Rightarrow> run_callbacks rest w1)"

definition callCancelTrain :: "args \<Rightarrow> 'p world \<Rightarrow> 'p returned" where
  "callCancelTrain args w =
     (case trainingSessions w (trainingSessionId args) of
        Some t \<Rightarrow>
          (let w1 = w\<lparr>trackers := (trackers w)(t := (trackers w t)\<lparr>cancelled := Some True\<rparr>)\<rparr>
           in case run_callbacks (on_cancel_list (trackers w1 t)) w1 of
                (Inl e, w2) \<Rightarrow> (Inl e, w2)
              | (Inr u, w2) \<Rightarrow> (Inr None, w2))
      | None \<Rightarrow> (Inr None, w))"

subsection \<open>callEvaluate\<close>

text \<open>The loop \<^verbatim>\<open>for el2 in el['data']\<close> of lines 239-241.\<close>

fun data_bytes :: "pyval list \<Rightarrow> pyerror + bytes list" where
  \<open>data_bytes [] = Inr []\<close>
| \<open>data_bytes (el2 # rest) =
     (case el2 of
        PyBytes x \<Rightarrow> (case data_bytes rest of Inl e \<Rightarrow> Inl e | Inr xs \<Rightarrow> Inr (x # xs))
      | _ \<Rightarrow> Inl (Exception ''Evaluate: Expected each element in the return list of "evaluate" to contain a field "data" that is a list where each element is a bytes object. Got something other than bytes.''))\<close>

text \<open>The loop \<^verbatim>\<open>for el in awaitedres\<close> of lines 232-243.\<close>

fun collect_outputs ::
  "pyval list \<Rightarrow> pyval list \<Rightarrow> bytes list \<Rightarrow> pyerror + (pyval list \<times> bytes list)" where
  \<open>collect_outputs [] outputs alsoSend' = Inr (outputs, alsoSend')\<close>
| \<open>collect_outputs (el # rest) outputs alsoSend' =
     (case el of
        PyDict d \<Rightarrow>
          (case map_of d ''name'' of
             Some (PyStr name) \<Rightarrow>
               (case map_of d ''data'' of
                  Some (PyList data) \<Rightarrow>
                    (case data_bytes data of
                       Inl e \<Rightarrow> Inl e
                     | Inr xs \<Rightarrow>
                         collect_outputs rest
                           (outputs @ [PyDict [(''name'', PyStr name),
                                               (''byteSizes'', PyList (map (\<lambda>x. PyInt (int (length x))) xs))]])
                           (alsoSend' @ xs))
                | _ \<Rightarrow> Inl (Exception ''Evaluate: Expected each element in the return list of "evaluate" to contain a field "data" that is a list.''))
           | _ \<Rightarrow> Inl (Exception ''Evaluate: Expected each element in the return list of "evaluate" to contain a field "name" that is a string.''))
      | _ \<Rightarrow> Inl (Exception ''Evaluate: Expected each element in the return list of "evaluate" to be a dict.''))\<close>

text \<open>Lines 212-248: the data loaders are created, the model's \<^verbatim>\<open>evaluate\<close> is looked up
  and called, and its result \<open>res\<close> is checked.\<close>

definition callEvaluate_run ::
  "(pyerror \<Rightarrow> string) \<Rightarrow> pyval outcome \<Rightarrow> pyval \<Rightarrow> 'p world \<Rightarrow> 'p returned" where
  \<open>callEvaluate_run format_exc res model w =
     (let w0 = record_call CreateDataLoaderMap w
      in case capability model ''evaluate'' of
           Some e \<Rightarrow> (Inr (Some (error_result (format_exc e))), w0)
         | None \<Rightarrow>
             (let w1 = record_call (UserEvaluate model) w0
              in case res of
                   Raised tb \<Rightarrow> (Inr (Some (error_result tb)), w1)
                 | Returned awaitedres \<Rightarrow>
                     (case awaitedres of
                        PyList els \<Rightarrow>
                          (case collect_outputs els [] [] of
                             Inl e \<Rightarrow> (Inr (Some (error_result (format_exc e))), w1)
                           | Inr (outputs, alsoSend') \<Rightarrow>
                               (Inr (Some \<lparr>result = PyDict [(''outputs'', PyList outputs)],
                                           alsoSend = Some [concat alsoSend']\<rparr>), w1))
                      | _ \<Rightarrow>
                          (Inr (Some (error_result (format_exc
                             (Exception ''Evaluate: Expected return value of "evaluate" to be a list.'')))), w1))))\<close>

text \<open>Lines 203-211, up to the \<^verbatim>\<open>await\<close> of the model.\<close>

definition callEvaluate_begin ::
  "(pyerror \<Rightarrow> string) \<Rightarrow> pyval outcome \<Rightarrow> args \<Rightarrow> 'p world \<Rightarrow> status \<times> 'p world" where
  "callEvaluate_begin format_exc res args w =
     (case instantiatedModels w (instantiatedModelId args) of
        None \<Rightarrow> (Return (Inr (Some instantiated_model_not_found)), w)
      | Some instantiatedModel \<Rightarrow>
          (case stored_model (handles w instantiatedModel) of
             TheFuture \<Rightarrow> (AwaitModel instantiatedModel, w)
           | TheModel model \<Rightarrow>
               (case callEvaluate_run format_exc res model w of (r, w1) \<Rightarrow> (Return r, w1))))"

text \<open>Lines 207-209: resumed at \<^verbatim>\<open>await instantiatedModel["model"]\<close>.\<close>

definition callEvaluate_model ::
  "(pyerror \<Rightarrow> string) \<Rightarrow> pyval outcome \<Rightarrow> nat \<Rightarrow> 'p world \<Rightarrow> status \<times> 'p world" where
  "callEvaluate_model format_exc res instantiatedModel w =
     (case modelFuture (handles w instantiatedModel) of
        Pending \<Rightarrow> (AwaitModel instantiatedModel, w)
      | Done model \<Rightarrow>
          if model = PyNone then (Return (Inr (Some instantiated_model_not_found)), w)
          else (case callEvaluate_run format_exc res model w of (r, w1) \<Rightarrow> (Return r, w1)))"

definition callEvaluate ::
  "(pyerror \<Rightarrow> string) \<Rightarrow> pyval outcome \<Rightarrow> args \<Rightarrow> 'p world \<Rightarrow> 'p returned option" where
  "callEvaluate format_exc res args w =
     (case callEvaluate_begin format_exc res args w of
        (Return r, w1) \<Rightarrow> Some (r, w1)
      | (AwaitUser, w1) \<Rightarrow> None
      | (AwaitModel instantiatedModel, w1) \<Rightarrow>
          (case callEvaluate_model format_exc res instantiatedModel w1 of
             (Return r, w2) \<Rightarrow> Some (r, w2)
           | (AwaitUser, w2) \<Rightarrow> None
           | (AwaitModel m, w2) \<Rightarrow> None))"

subsection \<open>callGetModelState\<close>

text \<open>Lines 261-278; \<^verbatim>\<open>args["id"]\<close> is read outside the \<^verbatim>\<open>try\<close>.\<close>

definition callGetModelState_run ::
  "(pyerror \<Rightarrow> string) \<Rightarrow> pyval outcome \<Rightarrow> args \<Rightarrow> pyval \<Rightarrow> 'p world \<Rightarrow> 'p returned" where
  "callGetModelState_run format_exc res args model w =
     (case arg_id args of
        None \<Rightarrow> (Inl KeyError, w)
      | Some i \<Rightarrow>
          (let w0 = record_call CreateStateProvider w
           in case capability model ''getModelState'' of
                Some e \<Rightarrow> (Inr (Some (error_result (format_exc e))), w0)
              | None \<Rightarrow>
                  (let w1 = record_call (UserGetModelState model) w0
                   in case res of
                        Raised tb \<Rightarrow> (Inr (Some (error_result tb)), w1)
                      | Returned v \<Rightarrow> (Inr (Some empty_result), w1))))"

definition callGetModelState_begin ::
  "(pyerror \<Rightarrow> string) \<Rightarrow> pyval outcome \<Rightarrow> args \<Rightarrow> 'p world \<Rightarrow> status \<times> 'p world" where
  "callGetModelState_begin format_exc res args w =
     (case instantiatedModels w (instantiatedModelId args) of
        None \<Rightarrow> (Return (Inr (Some instantiated_model_not_found)), w)
      | Some instantiatedModel \<Rightarrow>
          (case stored_model (handles w instantiatedModel) of
             TheFuture \<Rightarrow> (AwaitModel instantiatedModel, w)
           | TheModel model \<Rightarrow>
               (case callGetModelState_run format_exc res args model w of
                  (r, w1) \<Rightarrow> (Return r, w1))))"

definition callGetModelState_model ::
  "(pyerror \<Rightarrow> string) \<Rightarrow> pyval outcome \<Rightarrow> args \<Rightarrow> nat \<Rightarrow> 'p world \<Rightarrow> status \<times> 'p world" where
  "callGetModelState_model format_exc res args instantiatedModel w =
     (case modelFuture (handles w instantiatedModel) of
        Pending \<Rightarrow> (AwaitModel instantiatedModel, w)
      | Done model \<Rightarrow>
          if model = PyNone then (Return (Inr (Some instantiated_model_not_found)), w)
          else (case callGetModelState_run format_exc res args model w of
                  (r, w1) \<Rightarrow> (Return r, w1)))"

definition callGetModelState ::
  "(pyerror \<Rightarrow> string) \<Rightarrow> pyval outcome \<Rightarrow> args \<Rightarrow> 'p world \<Rightarrow> 'p returned option" where
  "callGetModelState format_exc res args w =
     (case callGetModelState_begin format_exc res args w of
        (Return r, w1) \<Rightarrow> Some (r, w1)
      | (AwaitUser, w1) \<Rightarrow> None
      | (AwaitModel instantiatedModel, w1) \<Rightarrow>
          (case callGetModelState_model format_exc res args instantiatedModel w1 of
             (Return r, w2) \<Rightarrow> Some (r, w2)
           | (AwaitUser, w2) \<Rightarrow> None
           | (AwaitModel m, w2) \<Rightarrow> None))"

section \<open>The dispatcher\<close>

text \<open>The functions of the module that handle control calls, and the dict \<^verbatim>\<open>rpc\<close> of
  lines 280-288, in the order it is written.\<close>

datatype handler =
    Initialize
  | CallCreateModelState
  | CallInstantiateModel
  | CallDisposeInstantiatedModel
  | CallTrain
  | CallCancelTrain
  | CallEvaluate
  | CallGetModelState

definition rpc :: "(string \<times> handler) list" where
  "rpc =
     [(''initialize'', Initialize),
      (''callCreateModelState'', CallCreateModelState),
      (''callInstantiateModel'', CallInstantiateModel),
      (''callDisposeInstantiatedModel'', CallDisposeInstantiatedModel),
      (''callTrain'', CallTrain),
      (''callEvaluate'', CallEvaluate),
      (''callGetModelState'', CallGetModelState)]"

text \<open>The outcomes of the user's code during one control call.\<close>

record user =
  load_module :: "pyval outcome"
  createModelState_res :: "pyval outcome"
  instantiateModel_res :: "pyval outcome"
  dispose_res :: "pyval outcome"
  train_res :: "pyval outcome"
  evaluate_res :: "pyval outcome"
  getModelState_res :: "pyval outcome"

text \<open>The call \<^verbatim>\<open>rpc[...](parsed["params"])\<close> awaited to its end, with no other call in
  between; \<open>None\<close> when the handler waits for something no other call resolves then.\<close>

fun run_handler ::
  "(pyval \<Rightarrow> bytes) \<Rightarrow> (pyerror \<Rightarrow> string) \<Rightarrow> user \<Rightarrow> handler \<Rightarrow> args \<Rightarrow> 'p world
     \<Rightarrow> 'p returned option" where
  "run_handler dumps format_exc u Initialize args w = Some (initialize dumps (load_module u) w)"
| "run_handler dumps format_exc u CallCreateModelState args w =
     Some (callCreateModelState format_exc (createModelState_res u) args w)"
| "run_handler dumps format_exc u CallInstantiateModel args w =
     Some (callInstantiateModel format_exc (dispose_res u) (instantiateModel_res u) args w)"
| "run_handler dumps format_exc u CallDisposeInstantiatedModel args w =
     Some (callDisposeInstantiatedModel args w)"
| "run_handler dumps format_exc u CallTrain args w = callTrain format_exc (train_res u) args w"
| "run_handler dumps format_exc u CallCancelTrain args w = Some (callCancelTrain args w)"
| "run_handler dumps format_exc u CallEvaluate args w = callEvaluate format_exc (evaluate_res u) args w"
| "run_handler dumps format_exc u CallGetModelState args w =
     callGetModelState format_exc (getModelState_res u) args w"

text \<open>What \<^verbatim>\<open>json.loads(buf.decode('utf-8'))\<close> gives when the reads of \<^verbatim>\<open>parsed["method"]\<close>
  (the field \<open>method_name\<close>) and \<^verbatim>\<open>parsed["params"]\<close> succeed; the parameter \<open>loads\<close> of \<open>processMessage\<close> gives
  the exception otherwise.\<close>

record request =
  method_name :: string
  params :: args

text \<open>\<^verbatim>\<open>processMessage\<close>, lines 329-360.\<close>

definition processMessage ::
  "(bytes \<Rightarrow> pyerror + request) \<Rightarrow> (pyval \<Rightarrow> bytes) \<Rightarrow> (pyerror \<Rightarrow> string) \<Rightarrow> user \<Rightarrow> bytes
     \<Rightarrow> 'p world \<Rightarrow> ((pyerror + unit) \<times> 'p world) option" where
  "processMessage loads dumps format_exc u buf w =
     (case loads buf of
        Inl e \<Rightarrow> Some (Inl e, w)
      | Inr parsed \<Rightarrow>
          (case map_of rpc (method_name parsed) of
             None \<Rightarrow> Some (Inl KeyError, w)
           | Some h \<Rightarrow>
               (case run_handler dumps format_exc u h (params parsed) w of
                  None \<Rightarrow> None
                | Some (Inl e, w1) \<Rightarrow> Some (Inl e, w1)
                | Some (Inr response, w1) \<Rightarrow>
                    (case arg_id (params parsed) of
                       None \<Rightarrow> Some (Inr (), w1)
                     | Some i \<Rightarrow>
                         (case response of
                            None \<Rightarrow> Some (Inl TypeError, w1)
                          | Some r \<Rightarrow>
                              (let toSend = dumps (PyDict [(''id'', i), (''result'', result r)])
                                              # (case alsoSend r of Some xs \<Rightarrow> xs | None \<Rightarrow> [])
                               in case encode_frame toSend of
                                    Inl e \<Rightarrow> Some (Inl e, w1)
                                  | Inr finalBuffer \<Rightarrow>
                                      Some (Inr (), sendMessageToParent finalBuffer w1)))))))"

section \<open>Auxiliary definitions for the properties\<close>

text \<open>What lines 316-317 write for one segment: its length on 8 bytes, then its bytes.\<close>

definition segment_bytes :: "bytes \<Rightarrow> bytes" where
  "segment_bytes el = big_endian 8 (length el) @ el"

text \<open>The state of the module when it has been imported (lines 12-14): both dicts are
  empty, nothing has been sent, no object has been created.\<close>

definition init_world :: "unit world" where
  "init_world =
     \<lparr>runningProgram = PyNone, instantiatedModels = Map.empty, trainingSessions = Map.empty,
      handles = (\<lambda>r. \<lparr>disposed = False, modelFuture = Pending,
                         stored_model = TheFuture, stored_dispose = Dispose\<rparr>),
      trackers = (\<lambda>r. TrainTracker_init []),
      next_ref = 0, outbox = [], calls = [], pending = ()\<rparr>"

text \<open>A well-formed element of the argument of \<^verbatim>\<open>metrics\<close>: a dict with a string under
  \<^verbatim>\<open>"name"\<close> and bytes under \<^verbatim>\<open>"value"\<close>, of a length that fits the 8-byte length field of
  a frame.\<close>

fun well_formed_metric :: "pyval \<Rightarrow> bool" where
  "well_formed_metric (PyDict d) =
     (case map_of d ''name'' of
        Some (PyStr name) \<Rightarrow>
          (case map_of d ''value'' of Some (PyBytes v) \<Rightarrow> length v < 2 ^ 64 | _ \<Rightarrow> False)
      | _ \<Rightarrow> False)"
| "well_formed_metric v = False"

text \<open>The parameters of a control call with a correlation id, for the model id \<open>m\<close> and
  the training session id \<open>s\<close>.\<close>

definition example_args :: args where
  "example_args = \<lparr>arg_id = Some (PyInt 1), instantiatedModelId = ''m'',
                    trainingSessionId = ''s'', otherModelStates = []\<rparr>"

text \<open>A state in which the training session \<open>s\<close> is active: its tracker is the object 0,
  on which the callbacks \<open>cbs\<close> have been registered with \<^verbatim>\<open>on_cancel\<close>, in this order.\<close>

definition training_world :: "callback list \<Rightarrow> unit world" where
  "training_world cbs =
     init_world\<lparr>trainingSessions := [''s'' \<mapsto> 0],
                trackers := (trackers init_world)(0 := fold on_cancel cbs (TrainTracker_init ''s'')),
                next_ref := 1\<rparr>"

text \<open>The state after \<^verbatim>\<open>initialize\<close> has loaded the user's module: \<^verbatim>\<open>runningProgram\<close> is the
  object 1, and the event \<^verbatim>\<open>modelSessionInitialized\<close> has been sent.\<close>

definition loaded_world :: "unit world" where
  "loaded_world = snd (initialize (\<lambda>v. []) (Returned (PyObj 1)) init_world)"

text \<open>The state after an instantiation of the model id \<open>m\<close> whose user code raised.\<close>

definition failed_instantiation :: "unit world" where
  "failed_instantiation =
     snd (callInstantiateModel_finish (Returned PyNone) (Raised ''Traceback'') example_args 0
            (snd (snd (callInstantiateModel_begin example_args loaded_world))))"

text \<open>The state after the model id \<open>m\<close> has been instantiated: the user's
  \<^verbatim>\<open>instantiateModel\<close> returned the model object 7.\<close>

definition ready_model :: "unit world" where
  "ready_model =
     snd (callInstantiateModel (\<lambda>e. []) (Returned PyNone) (Returned (PyObj 7)) example_args
            loaded_world)"

text \<open>The state after the same instantiation when the dispose call for \<open>m\<close> arrived while
  the user's \<^verbatim>\<open>instantiateModel\<close> was awaited.\<close>

definition disposed_while_instantiating :: "unit world" where
  "disposed_while_instantiating =
     snd (callInstantiateModel_finish (Returned PyNone) (Returned (PyObj 7)) example_args 0
            (snd (callDisposeInstantiatedModel example_args
                    (snd (snd (callInstantiateModel_begin example_args loaded_world))))))"

text \<open>The state while the model \<open>m\<close> is trained in the session \<open>s\<close>: \<^verbatim>\<open>callTrain\<close> has called
  the model's \<^verbatim>\<open>train\<close> with the tracker, the object 1, and the user's code has
  registered two callbacks with \<^verbatim>\<open>on_cancel\<close>.\<close>

definition active_training :: "unit world" where
  "active_training =
     (let w = snd (snd (callTrain_begin (\<lambda>e. []) example_args ready_model))
      in w\<lparr>trackers := (trackers w)
              (1 := on_cancel (Callback 2 None) (on_cancel (Callback 1 None) (trackers w 1)))\<rparr>)"

text \<open>The state after two \<^verbatim>\<open>train\<close> calls for the same session \<open>s\<close> have both called the
  model's \<^verbatim>\<open>train\<close> (their trackers are the objects 1 and 2) and the first has returned.\<close>

definition overlapping_training :: "unit world" where
  "overlapping_training =
     snd (callTrain_finish (Returned PyNone) example_args 1
            (snd (snd (callTrain_begin (\<lambda>e. []) example_args
                         (snd (snd (callTrain_begin (\<lambda>e. []) example_args ready_model)))))))"

text \<open>User code that returns from every capability.\<close>

definition example_user :: user where
  "example_user =
     \<lparr>load_module = Returned (PyObj 1), createModelState_res = Returned PyNone,
      instantiateModel_res = Returned (PyObj 7), dispose_res = Returned PyNone,
      train_res = Returned PyNone, evaluate_res = Returned (PyList []),
      getModelState_res = Returned PyNone\<rparr>"

text \<open>The number a string of decimal digits denotes (\<^verbatim>\<open>int(s)\<close>).\<close>

definition decimal :: "string \<Rightarrow> nat" where
  "decimal ds = foldl (\<lambda>n c. 10 * n + (of_char c - 48)) 0 ds"

text \<open>
  The states the runtime can be in: the initial state, and every state that a piece of a
  handler registered in \<^verbatim>\<open>rpc\<close>, a method of a tracker called by user code, or the sending
  of a reply leads to from such a state, with any parameters and any outcome of the
  user's code. The pieces of the coroutines may follow each other in any order, so every
  interleaving of control calls is covered.
\<close>

inductive reachable :: "unit world \<Rightarrow> bool" where
  start: "reachable init_world"
| run_initialize: "reachable w \<Longrightarrow> reachable (snd (initialize dumps loaded w))"
| run_createModelState:
    "reachable w \<Longrightarrow> reachable (snd (callCreateModelState format_exc res args w))"
| run_instantiate_begin:
    "reachable w \<Longrightarrow> reachable (snd (snd (callInstantiateModel_begin args w)))"
| run_instantiate_finish:
    "reachable w \<Longrightarrow> reachable (snd (callInstantiateModel_finish dres res args h w))"
| run_dispose: "reachable w \<Longrightarrow> reachable (snd (callDisposeInstantiatedModel args w))"
| run_train_begin:
    "reachable w \<Longrightarrow> reachable (snd (snd (callTrain_begin format_exc args w)))"
| run_train_model:
    "reachable w \<Longrightarrow> reachable (snd (callTrain_model format_exc args t h w))"
| run_train_finish: "reachable w \<Longrightarrow> reachable (snd (callTrain_finish res args t w))"
| run_evaluate_begin:
    "reachable w \<Longrightarrow> reachable (snd (callEvaluate_begin format_exc res args w))"
| run_evaluate_model:
    "reachable w \<Longrightarrow> reachable (snd (callEvaluate_model format_exc res h w))"
| run_getModelState_begin:
    "reachable w \<Longrightarrow> reachable (snd (callGetModelState_begin format_exc res args w))"
| run_getModelState_model:
    "reachable w \<Longrightarrow> reachable (snd (callGetModelState_model format_exc res args h w))"
| user_progress: "reachable w \<Longrightarrow> reachable (snd (progress dumps (trackers w t) p w))"
| user_metrics: "reachable w \<Longrightarrow> reachable (snd (metrics dumps (trackers w t) m w))"
| user_on_cancel:
    "reachable w \<Longrightarrow> reachable (w\<lparr>trackers := (trackers w)(t := on_cancel cb (trackers w t))\<rparr>)"
| reply: "reachable w \<Longrightarrow> reachable (sendMessageToParent finalBuffer w)"

text \<open>No handle is marked as disposed, and the \<^verbatim>\<open>dispose\<close> capability of no model has been
  called.\<close>

definition never_disposed :: "'p world \<Rightarrow> bool" where
  "never_disposed w \<longleftrightarrow>
     (\<forall>h. \<not> disposed (handles w h)) \<and> (\<forall>model. UserDispose model \<notin> set (calls w))"

text \<open>No cancellation callback has been called, and no tracker has the attribute
  \<^verbatim>\<open>cancelled\<close>.\<close>

definition never_cancelled :: "'p world \<Rightarrow> bool" where
  "never_cancelled w \<longleftrightarrow>
     (\<forall>n. Cancel n \<notin> set (calls w)) \<and> (\<forall>t. cancelled (trackers w t) = None)"

definition never_called :: "'p world \<Rightarrow> bool" where
  "never_called w \<longleftrightarrow> never_disposed w \<and> never_cancelled w"

section \<open>The frame codec\<close>

lemma length_big_endian: "length (big_endian n v) = n"
  by (induction n arbitrary: v) auto

lemma from_bytes_snoc: "from_bytes (xs @ [x]) = from_bytes xs * 256 + unat x"
  by (simp add: from_bytes_def)

lemma from_bytes_big_endian: "from_bytes (big_endian n v) = v mod 256 ^ n"
proof (induction n arbitrary: v)
  case 0
  then show ?case by (simp add: from_bytes_def)
next
  case (Suc n)
  have "unat (of_nat (v mod 256) :: byte) = v mod 256"
    by (simp add: unat_of_nat)
  then show ?case
    by (simp add: from_bytes_snoc Suc mod_mult2_eq)
qed

lemma length_segment_bytes: "length (segment_bytes el) = 8 + length el"
  by (simp add: segment_bytes_def length_big_endian)

lemma write_segments_layout:
  "\<forall>el \<in> set els. length el < 2 ^ 64 \<Longrightarrow> length pre = pos \<Longrightarrow>
   length (concat (map segment_bytes els)) \<le> k \<Longrightarrow>
   write_segments (pre @ replicate k 0) pos els =
     Inr (pre @ concat (map segment_bytes els)
              @ replicate (k - length (concat (map segment_bytes els))) 0,
          pos + length (concat (map segment_bytes els)))"
proof (induction els arbitrary: pre pos k)
  case Nil
  then show ?case by simp
next
  case (Cons el els)
  let ?l = "big_endian 8 (length el)"
  let ?r = "length (concat (map segment_bytes els))"
  have tb: "to_bytes (int (length el)) 8 = Inr ?l"
    using Cons.prems(1) by (simp add: to_bytes_def)
  have k: "8 + length el \<le> k" and k': "?r \<le> k - (8 + length el)"
    using Cons.prems(3) by (simp_all add: length_segment_bytes)
  have s1: "slice_assign (pre @ replicate k 0) pos (pos + 8) ?l = (pre @ ?l) @ replicate (k - 8) 0"
    using Cons.prems(2) k by (simp add: slice_assign_def)
  have s2: "slice_assign ((pre @ ?l) @ replicate (k - 8) 0) (pos + 8) (pos + 8 + length el) el
            = (pre @ segment_bytes el) @ replicate (k - (8 + length el)) 0"
    using Cons.prems(2) k by (simp add: slice_assign_def length_big_endian segment_bytes_def)
  have ih: "write_segments ((pre @ segment_bytes el) @ replicate (k - (8 + length el)) 0) (pos + 8 + length el) els
     = Inr ((pre @ segment_bytes el) @ concat (map segment_bytes els)
              @ replicate (k - (8 + length el) - ?r) 0,
          (pos + 8 + length el) + ?r)"
    using Cons.prems(1,2) k' by (intro Cons.IH) (simp_all add: length_segment_bytes)
  have "write_segments (pre @ replicate k 0) pos (el # els)
     = Inr ((pre @ segment_bytes el) @ concat (map segment_bytes els)
              @ replicate (k - (8 + length el) - ?r) 0,
          (pos + 8 + length el) + ?r)"
    by (simp only: write_segments.simps tb sum.case s1 s2 ih)
  then show ?case
    by (simp add: length_segment_bytes)
qed

lemma length_concat_segments:
  "length (concat (map segment_bytes toSend)) = length toSend * 8 + sum_list (map length toSend)"
  by (induction toSend) (simp_all add: length_segment_bytes)

lemma encode_frame_layout:
  assumes "toSend \<noteq> []" "length toSend \<le> 2 ^ 32" "\<forall>el \<in> set toSend. length el < 2 ^ 64"
  shows "encode_frame toSend =
           Inr ([0] @ big_endian 4 (length toSend - 1) @ concat (map segment_bytes toSend) @ [0])"
proof -
  let ?body = "concat (map segment_bytes toSend)"
  let ?N = "6 + length toSend * 8 + sum_list (map length toSend)"
  let ?c = "big_endian 4 (length toSend - 1)"
  have N: "?N = 5 + Suc (length ?body)"
    by (simp add: length_concat_segments)
  have c: "to_bytes (int (length toSend) - 1) 4 = Inr ?c"
    using assms(1,2) by (cases toSend) (simp_all add: to_bytes_def)
  have i0: "index_assign (replicate ?N (0::byte)) 0 0 = Inr (replicate ?N 0)"
    by (simp add: index_assign_def list_update_same_conv)
  have r: "replicate (5 + Suc (length ?body)) (0::byte) = [0] @ replicate 4 0 @ replicate (Suc (length ?body)) 0"
    by (simp add: eval_nat_numeral)
  have s: "slice_assign (replicate ?N (0::byte)) 1 5 ?c = ([0] @ ?c) @ replicate (Suc (length ?body)) 0"
    unfolding N r by (simp add: slice_assign_def)
  have w: "write_segments (([0] @ ?c) @ replicate (Suc (length ?body)) 0) 5 toSend
         = Inr (([0] @ ?c) @ ?body @ replicate (Suc (length ?body) - length ?body) 0, 5 + length ?body)"
    using assms(3) by (intro write_segments_layout) (simp_all add: length_big_endian)
  have f: "index_assign (([0] @ ?c) @ ?body @ replicate (Suc (length ?body) - length ?body) 0) (5 + length ?body) 0
           = Inr ([0] @ ?c @ ?body @ [0])"
    by (simp add: index_assign_def length_big_endian list_update_append)
  show ?thesis
    by (simp only: encode_frame_def Let_def i0 c s w f sum.case prod.case)
qed

lemma read_segments_layout:
  "\<forall>el \<in> set els. length el < 2 ^ 64 \<Longrightarrow>
   read_segments (length els) (concat (map segment_bytes els) @ rest) = Inr (els, rest)"
proof (induction els)
  case Nil
  then show ?case by simp
next
  case (Cons el els)
  have l: "length el < 2 ^ 64" and r: "\<forall>el \<in> set els. length el < 2 ^ 64"
    using Cons.prems by simp_all
  have h: "readexactly 8 (concat (map segment_bytes (el # els)) @ rest)
           = Inr (big_endian 8 (length el), el @ concat (map segment_bytes els) @ rest)"
    by (simp add: readexactly_def segment_bytes_def length_big_endian)
  have n: "from_bytes (big_endian 8 (length el)) = length el"
    using l by (simp add: from_bytes_big_endian)
  have d: "readexactly (length el) (el @ concat (map segment_bytes els) @ rest)
           = Inr (el, concat (map segment_bytes els) @ rest)"
    by (simp add: readexactly_def)
  show ?case
    using Cons.IH [OF r] by (simp only: length_Cons read_segments.simps h n d sum.case prod.case)
qed

text \<open>
  Claim C2, as amended. For every non-empty list of at most \<open>2^32\<close> segments, each shorter
  than \<open>2^64\<close> bytes, the outbound encoder produces the frame
  \<open>[0][count-1 on 4 bytes, big-endian][(length on 8 bytes, big-endian; bytes) per segment][0]\<close>,
  and reading that frame back by this layout, with the decoder's own loop over
  length-prefixed segments for the segment area, yields the identical segment list and
  leaves the trailing zero byte.
\<close>

theorem encode_frame_read_back:
  assumes "toSend \<noteq> []" and "length toSend \<le> 2 ^ 32"
    and "\<forall>el \<in> set toSend. length el < 2 ^ 64"
  shows "\<exists>c body. encode_frame toSend = Inr ([0] @ c @ body @ [0])
           \<and> length c = 4 \<and> from_bytes c = length toSend - 1
           \<and> body = concat (map (\<lambda>el. big_endian 8 (length el) @ el) toSend)
           \<and> read_segments (length toSend) (body @ [0]) = Inr (toSend, [0])"
proof -
  let ?c = "big_endian 4 (length toSend - 1)"
  let ?body = "concat (map segment_bytes toSend)"
  have "encode_frame toSend = Inr ([0] @ ?c @ ?body @ [0])"
    using assms by (rule encode_frame_layout)
  moreover have "from_bytes ?c = length toSend - 1"
    using assms(2) by (simp add: from_bytes_big_endian)
  moreover have "read_segments (length toSend) (?body @ [0]) = Inr (toSend, [0])"
    using assms(3) by (rule read_segments_layout)
  moreover have "?body = concat (map (\<lambda>el. big_endian 8 (length el) @ el) toSend)"
    by (simp add: segment_bytes_def [abs_def])
  ultimately show ?thesis
    using length_big_endian [of 4 "length toSend - 1"] by blast
qed

text \<open>The witness of C2: the segments \<open>["{}", "abc", ""]\<close>.\<close>

theorem encode_frame_read_back_witness:
  "[[123, 125], [97, 98, 99], []] \<noteq> ([] :: bytes list)
   \<and> length [[123, 125], [97, 98, 99], [] :: bytes] \<le> 2 ^ 32
   \<and> list_all (\<lambda>el. length el < 2 ^ 64) [[123, 125], [97, 98, 99], [] :: bytes]
   \<and> (\<exists>c body. encode_frame [[123, 125], [97, 98, 99], []] = Inr ([0] @ c @ body @ [0])
           \<and> length c = 4 \<and> from_bytes c = length [[123, 125], [97, 98, 99], [] :: bytes] - 1
           \<and> body = concat (map (\<lambda>el. big_endian 8 (length el) @ el) [[123, 125], [97, 98, 99], []])
           \<and> read_segments (length [[123, 125], [97, 98, 99], [] :: bytes]) (body @ [0])
               = Inr ([[123, 125], [97, 98, 99], []], [0]))"
proof -
  have h: "[[123, 125], [97, 98, 99], []] \<noteq> ([] :: bytes list)"
    "length [[123, 125], [97, 98, 99], [] :: bytes] \<le> 2 ^ 32"
    "\<forall>el \<in> set [[123, 125], [97, 98, 99], [] :: bytes]. length el < 2 ^ 64"
    by simp_all
  have w: "list_all (\<lambda>el. length el < 2 ^ 64) [[123, 125], [97, 98, 99], [] :: bytes]"
    by simp
  from encode_frame_read_back [OF h] h(1,2) w show ?thesis
    by (intro conjI)
qed

text \<open>
  The counterexample of C2 as it was stated: the inbound decoder of \<^verbatim>\<open>inner_main\<close> reads
  after a tag byte 0 one length on 8 bytes and one segment. On the frame of
  \<open>["{}", "abc", ""]\<close> these 8 bytes are the count field and the first half of a length:
  the decoder asks for \<open>2^33\<close> bytes, which the frame does not hold.
\<close>

theorem outbound_frame_not_decoded_by_inbound:
  "encode_frame [[123, 125], [97, 98, 99], []]
     = Inr [0, 0, 0, 0, 2, 0, 0, 0, 0, 0, 0, 0, 2, 123, 125, 0, 0, 0, 0, 0, 0, 0, 3,
            97, 98, 99, 0, 0, 0, 0, 0, 0, 0, 0, 0]
   \<and> read_message [0, 0, 0, 0, 2, 0, 0, 0, 0, 0, 0, 0, 2, 123, 125, 0, 0, 0, 0, 0, 0, 0, 3,
                    97, 98, 99, 0, 0, 0, 0, 0, 0, 0, 0, 0]
     = Inl IncompleteReadError"
proof
  show "encode_frame [[123, 125], [97, 98, 99], []]
     = Inr [0, 0, 0, 0, 2, 0, 0, 0, 0, 0, 0, 0, 2, 123, 125, 0, 0, 0, 0, 0, 0, 0, 3,
            97, 98, 99, 0, 0, 0, 0, 0, 0, 0, 0, 0]"
    by code_simp
  show "read_message [0, 0, 0, 0, 2, 0, 0, 0, 0, 0, 0, 0, 2, 123, 125, 0, 0, 0, 0, 0, 0, 0, 3,
                    97, 98, 99, 0, 0, 0, 0, 0, 0, 0, 0, 0]
     = Inl IncompleteReadError"
    by (simp add: read_message_def readexactly_def from_bytes_def)
qed

section \<open>The example states\<close>

lemma encode_frame_empty_segment:
  "encode_frame [[]] = Inr [0, 0, 0, 0, 0, 0, 0, 0, 0, 0, 0, 0, 0, 0]"
  by code_simp

lemma loaded_world_eq:
  "loaded_world =
     init_world\<lparr>runningProgram := PyObj 1,
                outbox := [[0, 0, 0, 0, 0, 0, 0, 0, 0, 0, 0, 0, 0, 0]]\<rparr>"
  by (simp add: loaded_world_def initialize_def sendEventToParent_def
      encode_frame_empty_segment sendMessageToParent_def init_world_def)

lemma instantiating_eq:
  "callInstantiateModel_begin example_args loaded_world =
     (0, None,
      loaded_world\<lparr>next_ref := 1,
        handles := (handles loaded_world)(0 := \<lparr>disposed = False, modelFuture = Pending,
                      stored_model = TheFuture, stored_dispose = Dispose\<rparr>),
        instantiatedModels := [''m'' \<mapsto> 0],
        calls := [CreateStateLoaderMap, UserInstantiateModel]\<rparr>)"
  by (simp add: callInstantiateModel_begin_def loaded_world_eq init_world_def example_args_def
      record_call_def Let_def)

lemma ready_model_eq:
  "ready_model =
     loaded_world\<lparr>next_ref := 1,
       handles := (handles loaded_world)(0 := \<lparr>disposed = False, modelFuture = Done (PyObj 7),
                      stored_model = TheModel (PyObj 7), stored_dispose = Dispose2 (PyObj 7)\<rparr>),
       instantiatedModels := [''m'' \<mapsto> 0],
       calls := [CreateStateLoaderMap, UserInstantiateModel]\<rparr>"
  unfolding ready_model_def callInstantiateModel_def instantiating_eq
  by (simp add: callInstantiateModel_finish_def loaded_world_eq init_world_def example_args_def
      set_result_def Let_def)

lemma active_training_eq:
  "active_training =
     ready_model\<lparr>next_ref := 2,
       trackers := (trackers ready_model)
         (1 := \<lparr>tracker_id = ''s'', on_cancel_list = [Callback 1 None, Callback 2 None],
                complete = False, cancelled = None\<rparr>),
       trainingSessions := [''s'' \<mapsto> 1],
       calls := [CreateStateLoaderMap, UserInstantiateModel, CreateDataLoaderMap,
                 UserTrain (PyObj 7) 1]\<rparr>"
  by (simp add: active_training_def callTrain_begin_def callTrain_run_def ready_model_eq
      loaded_world_eq init_world_def example_args_def record_call_def on_cancel_def
      TrainTracker_init_def Let_def)

lemma overlapping_training_eq:
  "overlapping_training =
     ready_model\<lparr>next_ref := 3,
       trackers := (trackers ready_model)
         (2 := \<lparr>tracker_id = ''s'', on_cancel_list = [], complete = False, cancelled = None\<rparr>,
          1 := \<lparr>tracker_id = ''s'', on_cancel_list = [], complete = True, cancelled = None\<rparr>),
       trainingSessions := Map.empty,
       calls := [CreateStateLoaderMap, UserInstantiateModel, CreateDataLoaderMap,
                 UserTrain (PyObj 7) 1, CreateDataLoaderMap, UserTrain (PyObj 7) 2]\<rparr>"
  by (simp add: overlapping_training_def callTrain_begin_def callTrain_run_def
      callTrain_finish_def del_item_def ready_model_eq loaded_world_eq init_world_def
      example_args_def record_call_def TrainTracker_init_def Let_def numeral_2_eq_2)

section \<open>The training tracker\<close>

text \<open>
  Claim C10. Calling \<^verbatim>\<open>metrics([])\<close> on a tracker whose completed flag is false returns
  without raising, and the state is the one before the call: no event has been sent.
\<close>

theorem metrics_empty_list_returns:
  "\<not> complete self \<Longrightarrow> metrics dumps self (PyList []) w = (Inr (), w)"
  by (simp add: metrics_def)

text \<open>The witness of C10: a tracker that has just been created.\<close>

theorem metrics_empty_list_returns_witness:
  "\<not> complete (TrainTracker_init ''s'')
   \<and> metrics (\<lambda>v. []) (TrainTracker_init ''s'') (PyList []) init_world = (Inr (), init_world)"
  using metrics_empty_list_returns [of "TrainTracker_init ''s''" "\<lambda>v. []" init_world]
  by (simp add: TrainTracker_init_def)

lemma encode_frame_returns:
  assumes "toSend \<noteq> []" and "length toSend \<le> 2 ^ 32"
    and "\<forall>el \<in> set toSend. length el < 2 ^ 64"
  shows "\<exists>finalBuffer. encode_frame toSend = Inr finalBuffer"
  using encode_frame_layout [OF assms] by blast

lemma sendEventToParent_returns:
  assumes "\<forall>x. length (dumps x) < 2 ^ 64" and "length additionalSegments < 2 ^ 32"
    and "\<forall>el \<in> set additionalSegments. length el < 2 ^ 64"
  shows "\<exists>finalBuffer. sendEventToParent dumps event ps additionalSegments w
           = (Inr (), sendMessageToParent finalBuffer w)"
proof -
  let ?toSend = "dumps (PyDict [(''event'', PyStr event), (''params'', ps)]) # additionalSegments"
  have "\<exists>finalBuffer. encode_frame ?toSend = Inr finalBuffer"
    using assms by (intro encode_frame_returns) auto
  then show ?thesis
    by (auto simp: sendEventToParent_def)
qed

lemma collect_metrics_returns:
  "list_all well_formed_metric ms \<Longrightarrow>
   \<exists>names vals. collect_metrics ms nameslist byteslist = Inr (nameslist @ names, byteslist @ vals)
      \<and> length vals = length ms \<and> (\<forall>v \<in> set vals. length v < 2 ^ 64)"
proof (induction ms arbitrary: nameslist byteslist)
  case Nil
  then show ?case by simp
next
  case (Cons metric ms)
  from Cons.prems obtain d name v where m: "metric = PyDict d"
    "map_of d ''name'' = Some (PyStr name)" "map_of d ''value'' = Some (PyBytes v)"
    "length v < 2 ^ 64"
    by (cases metric) (auto split: option.splits pyval.splits)
  from Cons.prems have "list_all well_formed_metric ms" by simp
  from Cons.IH [OF this, of "nameslist @ [name]" "byteslist @ [v]"]
  obtain names vals where
    r: "collect_metrics ms (nameslist @ [name]) (byteslist @ [v])
          = Inr ((nameslist @ [name]) @ names, (byteslist @ [v]) @ vals)"
       "length vals = length ms" "\<forall>v \<in> set vals. length v < 2 ^ 64"
    by blast
  have "collect_metrics (metric # ms) nameslist byteslist
          = Inr (nameslist @ (name # names), byteslist @ (v # vals))"
    using m r(1) by simp
  moreover have "length (v # vals) = length (metric # ms)"
    using r(2) by simp
  moreover have "\<forall>x \<in> set (v # vals). length x < 2 ^ 64"
    using m(4) r(3) by simp
  ultimately show ?case by blast
qed

lemma progress_returns:
  assumes "\<not> complete self" and "\<forall>x. length (dumps x) < 2 ^ 64" and "int_or_float p"
  shows "\<exists>finalBuffer. progress dumps self p w = (Inr (), sendMessageToParent finalBuffer w)"
  using assms(1,3) sendEventToParent_returns [OF assms(2), of "[]"]
  by (simp add: progress_def)

lemma metrics_returns:
  assumes "\<not> complete self" and "\<forall>x. length (dumps x) < 2 ^ 64"
    and "length ms < 2 ^ 32" and "list_all well_formed_metric ms"
  shows "\<exists>w'. metrics dumps self (PyList ms) w = (Inr (), w')"
proof (cases "ms = []")
  case True
  then show ?thesis using assms(1) by (simp add: metrics_def)
next
  case False
  from collect_metrics_returns [OF assms(4), of "[]" "[]"]
  obtain names vals where c: "collect_metrics ms [] [] = Inr (names, vals)"
    "length vals = length ms" "\<forall>v \<in> set vals. length v < 2 ^ 64"
    by auto
  from sendEventToParent_returns [OF assms(2), of vals] c(2,3) assms(3)
  obtain finalBuffer where
    "sendEventToParent dumps ''trainingMetrics''
       (PyDict [(''trainingSessionId'', PyStr (tracker_id self)),
                (''names'', PyList (map PyStr names))]) vals w
     = (Inr (), sendMessageToParent finalBuffer w)"
    by metis
  then show ?thesis
    using assms(1) False c(1) by (simp add: metrics_def)
qed

text \<open>
  Claim C6. On a tracker whose completed flag is true, \<^verbatim>\<open>progress\<close> and \<^verbatim>\<open>metrics\<close> raise
  and leave the state as it was: no event is sent. On a tracker whose completed flag is
  false they return without raising when the arguments are well-formed: an int or a float
  for \<^verbatim>\<open>progress\<close>; for \<^verbatim>\<open>metrics\<close> a list of fewer than \<open>2^32\<close> dicts, each with a string
  \<^verbatim>\<open>"name"\<close> and a bytes \<^verbatim>\<open>"value"\<close> shorter than \<open>2^64\<close>, so that the frame's count and
  length fields hold them. The JSON encoder is assumed to return fewer than \<open>2^64\<close> bytes.
\<close>

theorem tracker_reports_until_completed:
  \<open>(complete self \<longrightarrow>
       progress dumps self p w
         = (Inl (Exception ''TrainTracker progress: Cannot report progress after the training session was completed.''), w)
     \<and> metrics dumps self m w
         = (Inl (Exception ''TrainTracker metrics: Cannot report metrics after the training session was completed.''), w))
   \<and> (\<not> complete self \<and> (\<forall>x. length (dumps x) < 2 ^ 64) \<longrightarrow>
        (int_or_float p \<longrightarrow>
           (\<exists>finalBuffer. progress dumps self p w = (Inr (), sendMessageToParent finalBuffer w)))
      \<and> (length ms < 2 ^ 32 \<and> list_all well_formed_metric ms \<longrightarrow>
           (\<exists>w'. metrics dumps self (PyList ms) w = (Inr (), w'))))\<close>
proof (intro conjI impI)
  assume "complete self"
  then show "progress dumps self p w
         = (Inl (Exception ''TrainTracker progress: Cannot report progress after the training session was completed.''), w)"
    by (simp add: progress_def)
next
  assume "complete self"
  then show "metrics dumps self m w
         = (Inl (Exception ''TrainTracker metrics: Cannot report metrics after the training session was completed.''), w)"
    by (simp add: metrics_def)
next
  assume "\<not> complete self \<and> (\<forall>x. length (dumps x) < 2 ^ 64)" and "int_or_float p"
  then show "\<exists>finalBuffer. progress dumps self p w = (Inr (), sendMessageToParent finalBuffer w)"
    by (intro progress_returns) simp_all
next
  assume "\<not> complete self \<and> (\<forall>x. length (dumps x) < 2 ^ 64)"
    and "length ms < 2 ^ 32 \<and> list_all well_formed_metric ms"
  then show "\<exists>w'. metrics dumps self (PyList ms) w = (Inr (), w')"
    by (intro metrics_returns) simp_all
qed

text \<open>The witness of C6: a completed and an active tracker, the progress value 5 and one
  metric.\<close>

theorem tracker_reports_until_completed_witness:
  \<open>progress (\<lambda>v. []) ((TrainTracker_init ''s'')\<lparr>complete := True\<rparr>) (PyInt 5) init_world
         = (Inl (Exception ''TrainTracker progress: Cannot report progress after the training session was completed.''), init_world)
   \<and> metrics (\<lambda>v. []) ((TrainTracker_init ''s'')\<lparr>complete := True\<rparr>)
         (PyList [PyDict [(''name'', PyStr ''loss''), (''value'', PyBytes [1])]]) init_world
         = (Inl (Exception ''TrainTracker metrics: Cannot report metrics after the training session was completed.''), init_world)
   \<and> (\<exists>finalBuffer. progress (\<lambda>v. []) (TrainTracker_init ''s'') (PyInt 5) init_world
          = (Inr (), sendMessageToParent finalBuffer init_world))
   \<and> (\<exists>w'. metrics (\<lambda>v. []) (TrainTracker_init ''s'')
          (PyList [PyDict [(''name'', PyStr ''loss''), (''value'', PyBytes [1])]]) init_world
          = (Inr (), w'))\<close>
  using tracker_reports_until_completed
          [of "(TrainTracker_init ''s'')\<lparr>complete := True\<rparr>" "\<lambda>v. []" "PyInt 5" init_world
              "PyList [PyDict [(''name'', PyStr ''loss''), (''value'', PyBytes [1])]]" "[]"]
        tracker_reports_until_completed
          [of "TrainTracker_init ''s''" "\<lambda>v. []" "PyInt 5" init_world PyNone
              "[PyDict [(''name'', PyStr ''loss''), (''value'', PyBytes [1])]]"]
  by (simp add: TrainTracker_init_def)

section \<open>Errors of user code\<close>

text \<open>The digits \<^verbatim>\<open>str\<close> gives for a natural number denote it, and there are no more of
  them than needed.\<close>

lemma digit_char:
  assumes "d < 10"
  shows "''0123456789'' ! d \<in> set ''0123456789'' \<and> of_char (''0123456789'' ! d) = 48 + d"
proof -
  from assms have "d \<in> {0, 1, 2, 3, 4, 5, 6, 7, 8, 9}"
    by auto
  then show ?thesis
    by (elim insertE emptyE) simp_all
qed

lemma decimal_snoc: "decimal (ds @ [c]) = 10 * decimal ds + (of_char c - 48)"
  by (simp add: decimal_def)

lemma decimal_str_nat: "decimal (str_nat n) = n"
proof (induction n rule: str_nat.induct)
  case (1 n)
  show ?case
  proof (cases "n < 10")
    case True
    then show ?thesis
      using digit_char [of n] by (simp add: str_nat.simps [of n] decimal_def)
  next
    case False
    then have "decimal (str_nat (n div 10)) = n div 10"
      using 1 by simp
    then show ?thesis
      using False digit_char [of "n mod 10"]
      by (simp add: str_nat.simps [of n] decimal_snoc)
  qed
qed

lemma digits_str_nat: "list_all (\<lambda>c. c \<in> set ''0123456789'') (str_nat n)"
proof (induction n rule: str_nat.induct)
  case (1 n)
  show ?case
  proof (cases "n < 10")
    case True
    then show ?thesis
      using digit_char [of n] by (simp add: str_nat.simps [of n])
  next
    case False
    then have "list_all (\<lambda>c. c \<in> set ''0123456789'') (str_nat (n div 10))"
      using 1 by simp
    then show ?thesis
      using False digit_char [of "n mod 10"]
      by (simp add: str_nat.simps [of n])
  qed
qed

lemma str_nat_bounds:
  "n < 10 ^ length (str_nat n) \<and> 10 ^ (length (str_nat n) - 1) \<le> max 1 n"
proof (induction n rule: str_nat.induct)
  case (1 n)
  show ?case
  proof (cases "n < 10")
    case True
    then show ?thesis by (simp add: str_nat.simps [of n])
  next
    case False
    with 1 have ih: "n div 10 < 10 ^ length (str_nat (n div 10))"
      "10 ^ (length (str_nat (n div 10)) - 1) \<le> n div 10"
      by simp_all
    have l: "length (str_nat n) = Suc (length (str_nat (n div 10)))"
      using False by (simp add: str_nat.simps [of n])
    have pos: "0 < length (str_nat (n div 10))"
      using ih(1) False by (cases "length (str_nat (n div 10))") simp_all
    have "n < 10 * 10 ^ length (str_nat (n div 10))"
      using ih(1) by linarith
    moreover have "10 * 10 ^ (length (str_nat (n div 10)) - 1) \<le> n"
      using ih(2) by linarith
    moreover have "(10::nat) ^ length (str_nat (n div 10)) = 10 * 10 ^ (length (str_nat (n div 10)) - 1)"
      using pos by (cases "length (str_nat (n div 10))") simp_all
    ultimately show ?thesis
      using l by simp
  qed
qed

lemma str_nat_example: "str_nat 1204 = ''1204''"
  by (simp add: str_nat.simps [of 1204] str_nat.simps [of 120] str_nat.simps [of 12]
      str_nat.simps [of "Suc 0"])

text \<open>The error: its code, and its details with the traceback cut at 10000
  characters.\<close>

lemma getErrorFromException_shape:
  "\<exists>details digits.
     getErrorFromException tb
       = PyDict [(''code'', PyStr ''exception''), (''details'', PyStr details)]
     \<and> details =
         (if length tb \<le> 10000 then tb
          else take 10000 tb @ '' (exception shortened - actual exception contained ''
               @ digits @ '' more characters)'')
     \<and> list_all (\<lambda>c. c \<in> set ''0123456789'') digits
     \<and> decimal digits = length tb - 10000
     \<and> length tb - 10000 < 10 ^ length digits
     \<and> 10 ^ (length digits - 1) \<le> max 1 (length tb - 10000)
     \<and> length details \<le> 10068 + length digits"
proof -
  let ?digits = "str_nat (length tb - 10000)"
  let ?details = "if length tb \<le> 10000 then tb
          else take 10000 tb @ '' (exception shortened - actual exception contained ''
               @ ?digits @ '' more characters)''"
  have "getErrorFromException tb
       = PyDict [(''code'', PyStr ''exception''), (''details'', PyStr ?details)]"
    by (simp add: getErrorFromException_def Let_def)
  moreover have "length ?details \<le> 10068 + length ?digits"
    by simp
  ultimately show ?thesis
    using digits_str_nat [of "length tb - 10000"] decimal_str_nat [of "length tb - 10000"]
      str_nat_bounds [of "length tb - 10000"]
    by blast
qed

text \<open>The handlers whose user code raised, when their own cleanup succeeds.\<close>

lemma runningProgram_record_call [simp]: "runningProgram (record_call c w) = runningProgram w"
  by (simp add: record_call_def)

lemma runningProgram_fold_record_call [simp]:
  "runningProgram (fold (\<lambda>x. record_call c) xs w) = runningProgram w"
  by (induction xs arbitrary: w) simp_all

lemma callCreateModelState_raised:
  "arg_id args = Some i \<Longrightarrow> capability (runningProgram w) ''createModelState'' = None \<Longrightarrow>
   fst (callCreateModelState format_exc (Raised tb) args w) = Inr (Some (error_result tb))"
  by (simp add: callCreateModelState_def Let_def)

lemma callInstantiateModel_finish_raised:
  "instantiatedModels w (instantiatedModelId args) = Some h' \<Longrightarrow>
   modelFuture (handles w h) = Pending \<Longrightarrow>
   fst (callInstantiateModel_finish dres (Raised tb) args h w) = Inr (Some (error_result tb))"
  by (auto simp: callInstantiateModel_finish_def del_item_def set_result_def)

lemma callTrain_finish_raised:
  "trainingSessions w (trainingSessionId args) = Some t' \<Longrightarrow>
   fst (callTrain_finish (Raised tb) args t w) = Inr (Some (error_result tb))"
  by (auto simp: callTrain_finish_def del_item_def Let_def)

lemma callEvaluate_run_raised:
  "capability model ''evaluate'' = None \<Longrightarrow>
   fst (callEvaluate_run format_exc (Raised tb) model w) = Inr (Some (error_result tb))"
  by (simp add: callEvaluate_run_def Let_def)

lemma callGetModelState_run_raised:
  "arg_id args = Some i \<Longrightarrow> capability model ''getModelState'' = None \<Longrightarrow>
   fst (callGetModelState_run format_exc (Raised tb) args model w) = Inr (Some (error_result tb))"
  by (simp add: callGetModelState_run_def Let_def)

text \<open>
  Claim C9, as amended. For every uncaught exception raised by user code in
  \<^verbatim>\<open>createModelState\<close>, \<^verbatim>\<open>instantiateModel\<close>, \<^verbatim>\<open>train\<close>, \<^verbatim>\<open>evaluate\<close> or \<^verbatim>\<open>getModelState\<close>, the
  handler returns a structured error, provided its own cleanup does not raise: the model
  id is still in \<^verbatim>\<open>instantiatedModels\<close> with its future pending when a failed instantiation
  deletes it, and the training session is still in \<^verbatim>\<open>trainingSessions\<close> when \<^verbatim>\<open>callTrain\<close>
  deletes it. The error has the code \<open>exception\<close>; its details are the traceback when that
  has at most 10000 characters, and otherwise its first 10000 characters followed by
  \<open> (exception shortened - actual exception contained N more characters)\<close>, where \<open>N\<close> is
  the decimal numeral, without leading zeros, of the number of characters left out.
\<close>

theorem user_exception_error:
  "(\<exists>details digits.
      getErrorFromException tb
        = PyDict [(''code'', PyStr ''exception''), (''details'', PyStr details)]
      \<and> details =
          (if length tb \<le> 10000 then tb
           else take 10000 tb @ '' (exception shortened - actual exception contained ''
                @ digits @ '' more characters)'')
      \<and> list_all (\<lambda>c. c \<in> set ''0123456789'') digits
      \<and> decimal digits = length tb - 10000
      \<and> length tb - 10000 < 10 ^ length digits
      \<and> 10 ^ (length digits - 1) \<le> max 1 (length tb - 10000)
      \<and> length details \<le> 10068 + length digits)
   \<and> (arg_id args = Some i \<and> capability (runningProgram w1) ''createModelState'' = None \<longrightarrow>
        fst (callCreateModelState format_exc (Raised tb) args w1)
          = Inr (Some \<lparr>result = PyDict [(''error'', getErrorFromException tb)], alsoSend = None\<rparr>))
   \<and> (instantiatedModels w2 (instantiatedModelId args) = Some h' \<and>
      modelFuture (handles w2 h) = Pending \<longrightarrow>
        fst (callInstantiateModel_finish dres (Raised tb) args h w2)
          = Inr (Some \<lparr>result = PyDict [(''error'', getErrorFromException tb)], alsoSend = None\<rparr>))
   \<and> (trainingSessions w3 (trainingSessionId args) = Some t' \<longrightarrow>
        fst (callTrain_finish (Raised tb) args t w3)
          = Inr (Some \<lparr>result = PyDict [(''error'', getErrorFromException tb)], alsoSend = None\<rparr>))
   \<and> (capability model ''evaluate'' = None \<longrightarrow>
        fst (callEvaluate_run format_exc (Raised tb) model w4)
          = Inr (Some \<lparr>result = PyDict [(''error'', getErrorFromException tb)], alsoSend = None\<rparr>))
   \<and> (arg_id args = Some i \<and> capability model ''getModelState'' = None \<longrightarrow>
        fst (callGetModelState_run format_exc (Raised tb) args model w5)
          = Inr (Some \<lparr>result = PyDict [(''error'', getErrorFromException tb)], alsoSend = None\<rparr>))"
  using getErrorFromException_shape [of tb]
  by (simp add: callCreateModelState_raised callInstantiateModel_finish_raised
      callTrain_finish_raised callEvaluate_run_raised callGetModelState_run_raised
      error_result_def [symmetric])

text \<open>The witness of C9: a traceback of 10003 characters, in states where the user's
  module is loaded, the model \<open>m\<close> is being instantiated or ready, and the session \<open>s\<close> is
  active.\<close>

theorem user_exception_error_witness:
  "getErrorFromException (replicate 10003 (CHR ''x''))
     = PyDict [(''code'', PyStr ''exception''),
               (''details'', PyStr (replicate 10000 (CHR ''x'')
                  @ '' (exception shortened - actual exception contained 3 more characters)''))]
   \<and> fst (callCreateModelState (\<lambda>e. []) (Raised (replicate 10003 (CHR ''x''))) example_args
            loaded_world)
       = Inr (Some \<lparr>result = PyDict [(''error'', getErrorFromException (replicate 10003 (CHR ''x'')))],
                     alsoSend = None\<rparr>)
   \<and> fst (callInstantiateModel_finish (Returned PyNone) (Raised (replicate 10003 (CHR ''x'')))
            example_args 0 (snd (snd (callInstantiateModel_begin example_args loaded_world))))
       = Inr (Some \<lparr>result = PyDict [(''error'', getErrorFromException (replicate 10003 (CHR ''x'')))],
                     alsoSend = None\<rparr>)
   \<and> fst (callTrain_finish (Raised (replicate 10003 (CHR ''x''))) example_args 1 active_training)
       = Inr (Some \<lparr>result = PyDict [(''error'', getErrorFromException (replicate 10003 (CHR ''x'')))],
                     alsoSend = None\<rparr>)
   \<and> fst (callEvaluate_run (\<lambda>e. []) (Raised (replicate 10003 (CHR ''x''))) (PyObj 7) ready_model)
       = Inr (Some \<lparr>result = PyDict [(''error'', getErrorFromException (replicate 10003 (CHR ''x'')))],
                     alsoSend = None\<rparr>)
   \<and> fst (callGetModelState_run (\<lambda>e. []) (Raised (replicate 10003 (CHR ''x''))) example_args
            (PyObj 7) ready_model)
       = Inr (Some \<lparr>result = PyDict [(''error'', getErrorFromException (replicate 10003 (CHR ''x'')))],
                     alsoSend = None\<rparr>)"
proof -
  have e: "getErrorFromException (replicate 10003 (CHR ''x''))
     = PyDict [(''code'', PyStr ''exception''),
               (''details'', PyStr (replicate 10000 (CHR ''x'')
                  @ '' (exception shortened - actual exception contained 3 more characters)''))]"
    by (simp add: getErrorFromException_def str_nat.simps [of 3])
  have 1: "arg_id example_args = Some (PyInt 1)"
    by (simp add: example_args_def)
  have 2: "capability (runningProgram loaded_world) ''createModelState'' = None"
    by (simp add: loaded_world_eq)
  have 3: "instantiatedModels (snd (snd (callInstantiateModel_begin example_args loaded_world)))
             (instantiatedModelId example_args) = Some 0"
    "modelFuture (handles (snd (snd (callInstantiateModel_begin example_args loaded_world))) 0)
       = Pending"
    unfolding instantiating_eq by (simp_all add: example_args_def)
  have 4: "trainingSessions active_training (trainingSessionId example_args) = Some 1"
    by (simp add: active_training_eq example_args_def)
  have 5: "capability (PyObj 7) ''evaluate'' = None" "capability (PyObj 7) ''getModelState'' = None"
    by simp_all
  show ?thesis
    using user_exception_error
            [where tb = "replicate 10003 (CHR ''x'')" and args = example_args and i = "PyInt 1"
               and ?w1.0 = loaded_world and format_exc = "\<lambda>e. []"
               and ?w2.0 = "snd (snd (callInstantiateModel_begin example_args loaded_world))"
               and h = 0 and h' = 0 and dres = "Returned PyNone"
               and ?w3.0 = active_training and t = 1 and t' = 1
               and model = "PyObj 7" and ?w4.0 = ready_model and ?w5.0 = ready_model]
          1 2 3 4 5 e
    by simp
qed

text \<open>
  The counterexample of C9 as it was stated: the user's \<^verbatim>\<open>instantiateModel\<close> raises after
  a dispose call has removed the id, and the user's \<^verbatim>\<open>train\<close> raises after another
  \<^verbatim>\<open>train\<close> call for the same session has returned and removed the session. The
  \<^verbatim>\<open>del\<close> of lines 134 and 189 raises KeyError inside the \<^verbatim>\<open>except\<close> branch, and the handler
  returns no structured error.
\<close>

theorem user_exception_without_error_result:
  "fst (callInstantiateModel_finish (Returned PyNone) (Raised ''Traceback'') example_args 0
          (snd (callDisposeInstantiatedModel example_args
                  (snd (snd (callInstantiateModel_begin example_args loaded_world))))))
     = Inl KeyError
   \<and> fst (callTrain_finish (Raised ''Traceback'') example_args 2 overlapping_training)
     = Inl KeyError"
  unfolding instantiating_eq overlapping_training_eq
  by (simp add: callInstantiateModel_finish_def callDisposeInstantiatedModel_def
      callTrain_finish_def del_item_def ready_model_eq loaded_world_eq init_world_def
      example_args_def Let_def)

section \<open>Cancellation\<close>

text \<open>The function \<^verbatim>\<open>callCancelTrain\<close>, were it called for an active session whose callbacks
  all return: it sets the attribute \<^verbatim>\<open>cancelled\<close> of the tracker and calls every registered
  callback once, in registration order.\<close>

lemma run_callbacks_all:
  "\<forall>cb \<in> set cbs. cb_raises cb = None \<Longrightarrow>
   run_callbacks cbs w = (Inr (), w\<lparr>calls := calls w @ map (\<lambda>cb. Cancel (cb_name cb)) cbs\<rparr>)"
  by (induction cbs arbitrary: w) (simp_all add: record_call_def)

lemma on_cancel_list_fold:
  "on_cancel_list (fold on_cancel cbs tracker) = on_cancel_list tracker @ cbs"
  by (induction cbs arbitrary: tracker) (simp_all add: on_cancel_def)

lemma callCancelTrain_calls_callbacks:
  assumes "trainingSessions w (trainingSessionId args) = Some t"
    and "trackers w t = fold on_cancel cbs tracker" and "on_cancel_list tracker = []"
    and "\<forall>cb \<in> set cbs. cb_raises cb = None"
  shows "callCancelTrain args w =
           (Inr None,
            w\<lparr>trackers := (trackers w)(t := (trackers w t)\<lparr>cancelled := Some True\<rparr>),
              calls := calls w @ map (\<lambda>cb. Cancel (cb_name cb)) cbs\<rparr>)"
proof -
  let ?w1 = "w\<lparr>trackers := (trackers w)(t := (trackers w t)\<lparr>cancelled := Some True\<rparr>)\<rparr>"
  have l: "on_cancel_list (trackers ?w1 t) = cbs"
    using assms(2,3) by (simp add: on_cancel_list_fold)
  have "run_callbacks cbs ?w1
          = (Inr (), ?w1\<lparr>calls := calls ?w1 @ map (\<lambda>cb. Cancel (cb_name cb)) cbs\<rparr>)"
    using assms(4) by (rule run_callbacks_all)
  then show ?thesis
    using assms(1) l by (simp add: callCancelTrain_def Let_def)
qed

text \<open>
  Claim C5 says that when a cancellation call arrives for an active training session,
  every callback registered with \<^verbatim>\<open>on_cancel\<close> before it fires exactly once, in
  registration order, and the session's cancelled flag is set. The code at such a call:
  the session \<open>s\<close> is active and two callbacks are registered on its tracker; the control
  frame that names \<^verbatim>\<open>callCancelTrain\<close> for \<open>s\<close> ends in KeyError, since the function is not
  in \<^verbatim>\<open>rpc\<close>, and the state is the one before: no callback has been called and the tracker
  has no attribute \<^verbatim>\<open>cancelled\<close>.
\<close>

theorem cancellation_frame_calls_nothing:
  "trainingSessions active_training ''s'' = Some 1
   \<and> on_cancel_list (trackers active_training 1) = [Callback 1 None, Callback 2 None]
   \<and> processMessage
        (\<lambda>buf. Inr \<lparr>method_name = ''callCancelTrain'', params = example_args\<rparr>)
        (\<lambda>v. []) (\<lambda>e. []) example_user [] active_training
      = Some (Inl KeyError, active_training)
   \<and> calls active_training
       = [CreateStateLoaderMap, UserInstantiateModel, CreateDataLoaderMap, UserTrain (PyObj 7) 1]
   \<and> cancelled (trackers active_training 1) = None"
  by (simp add: processMessage_def rpc_def active_training_eq)

section \<open>Lookups of instantiated models\<close>

text \<open>
  Claim C7. An \<^verbatim>\<open>evaluate\<close> call whose \<^verbatim>\<open>instantiatedModelId\<close> is not a key of
  \<^verbatim>\<open>instantiatedModels\<close>, or whose awaited model future has been resolved with \<^verbatim>\<open>None\<close>,
  returns the result \<open>{error: instantiated_model_not_found}\<close> and leaves the state as it
  was: no user code has been called and no data loader has been created.
\<close>

theorem callEvaluate_model_not_found:
  "(instantiatedModels w (instantiatedModelId args) = None \<longrightarrow>
      callEvaluate_begin format_exc res args w
        = (Return (Inr (Some \<lparr>result = PyDict [(''error'', PyStr ''instantiated_model_not_found'')],
                                alsoSend = None\<rparr>)), w)
      \<and> callEvaluate format_exc res args w
        = Some (Inr (Some \<lparr>result = PyDict [(''error'', PyStr ''instantiated_model_not_found'')],
                             alsoSend = None\<rparr>), w))
   \<and> (modelFuture (handles w instantiatedModel) = Done PyNone \<longrightarrow>
      callEvaluate_model format_exc res instantiatedModel w
        = (Return (Inr (Some \<lparr>result = PyDict [(''error'', PyStr ''instantiated_model_not_found'')],
                                alsoSend = None\<rparr>)), w))"
  by (simp add: callEvaluate_begin_def callEvaluate_def callEvaluate_model_def
      instantiated_model_not_found_def)

text \<open>The witness of C7: an unknown id in the initial state, and an \<^verbatim>\<open>evaluate\<close> that waits
  for an instantiation, in a state with the user's module loaded, whose user code then
  raises.\<close>

theorem callEvaluate_model_not_found_witness:
  "instantiatedModels init_world (instantiatedModelId example_args) = None
   \<and> callEvaluate (\<lambda>e. []) (Returned (PyList [])) example_args init_world
        = Some (Inr (Some \<lparr>result = PyDict [(''error'', PyStr ''instantiated_model_not_found'')],
                             alsoSend = None\<rparr>), init_world)
   \<and> callEvaluate_begin (\<lambda>e. []) (Returned (PyList [])) example_args
        (snd (snd (callInstantiateModel_begin example_args loaded_world)))
        = (AwaitModel 0, snd (snd (callInstantiateModel_begin example_args loaded_world)))
   \<and> modelFuture (handles failed_instantiation 0) = Done PyNone
   \<and> callEvaluate_model (\<lambda>e. []) (Returned (PyList [])) 0 failed_instantiation
        = (Return (Inr (Some \<lparr>result = PyDict [(''error'', PyStr ''instantiated_model_not_found'')],
                                alsoSend = None\<rparr>)), failed_instantiation)"
proof -
  have 1: "instantiatedModels init_world (instantiatedModelId example_args) = None"
    by (simp add: init_world_def)
  have 2: "modelFuture (handles failed_instantiation 0) = Done PyNone"
    unfolding failed_instantiation_def instantiating_eq
    by (simp add: callInstantiateModel_finish_def loaded_world_eq init_world_def
        example_args_def del_item_def set_result_def)
  have 3: "callEvaluate_begin (\<lambda>e. []) (Returned (PyList [])) example_args
        (snd (snd (callInstantiateModel_begin example_args loaded_world)))
        = (AwaitModel 0, snd (snd (callInstantiateModel_begin example_args loaded_world)))"
    unfolding instantiating_eq
    by (simp add: callEvaluate_begin_def loaded_world_eq init_world_def example_args_def)
  show ?thesis
    using callEvaluate_model_not_found
            [where w = init_world and args = example_args and format_exc = "\<lambda>e. []"
               and res = "Returned (PyList [])" and instantiatedModel = 0]
          callEvaluate_model_not_found
            [where w = failed_instantiation and args = example_args and format_exc = "\<lambda>e. []"
               and res = "Returned (PyList [])" and instantiatedModel = 0]
          1 2 3
    by simp
qed

section \<open>Training sessions\<close>

text \<open>When the user's \<^verbatim>\<open>train\<close> has been called, the session is removed whether it
  returned or raised; on the two early returns of \<^verbatim>\<open>callTrain\<close> the session stays.\<close>

lemma callTrain_finish_removes_session:
  "trainingSessions w (trainingSessionId args) = Some t' \<Longrightarrow>
   \<exists>r w'. callTrain_finish res args t w = (Inr (Some r), w')
      \<and> trainingSessions w' (trainingSessionId args) = None"
  by (cases res) (auto simp: callTrain_finish_def del_item_def Let_def)

lemma callTrain_unknown_model:
  "instantiatedModels w (instantiatedModelId args) = None \<Longrightarrow>
   \<exists>w'. callTrain format_exc res args w = Some (Inr (Some instantiated_model_not_found), w')
      \<and> trainingSessions w' (trainingSessionId args) = Some (next_ref w)"
  by (simp add: callTrain_def callTrain_begin_def Let_def)

lemma callTrain_model_none:
  "modelFuture (handles w instantiatedModel) = Done PyNone \<Longrightarrow>
   callTrain_model format_exc args t instantiatedModel w
     = (Return (Inr (Some instantiated_model_not_found)), w)"
  by (simp add: callTrain_model_def)

text \<open>
  Claim C4 says that the training session created at the start of a \<^verbatim>\<open>train\<close> call is
  removed from \<^verbatim>\<open>trainingSessions\<close> when the call returns, also when the instantiated
  model id is not found. The code at such a call: in the initial state no model is
  instantiated; \<^verbatim>\<open>callTrain\<close> for the session \<open>s\<close> and the model \<open>m\<close> returns
  \<open>{error: instantiated_model_not_found}\<close> at line 163, and \<open>s\<close> is still a key of
  \<^verbatim>\<open>trainingSessions\<close> afterwards.
\<close>

theorem callTrain_unknown_model_keeps_session:
  "trainingSessions init_world ''s'' = None
   \<and> callTrain (\<lambda>e. []) (Returned PyNone) example_args init_world
     = Some (Inr (Some \<lparr>result = PyDict [(''error'', PyStr ''instantiated_model_not_found'')],
                         alsoSend = None\<rparr>),
             init_world\<lparr>next_ref := 1,
                        trackers := (trackers init_world)(0 := TrainTracker_init ''s''),
                        trainingSessions := [''s'' \<mapsto> 0]\<rparr>)"
  by (simp add: callTrain_def callTrain_begin_def Let_def init_world_def example_args_def
      instantiated_model_not_found_def)

section \<open>Disposal\<close>

text \<open>A dispose call removes the id, and calls nothing: neither closure stored under
  \<^verbatim>\<open>"dispose"\<close> runs, so no handle is marked as disposed either.\<close>

lemma callDisposeInstantiatedModel_calls_nothing:
  "\<exists>w'. callDisposeInstantiatedModel args w = (Inr None, w')
     \<and> calls w' = calls w \<and> handles w' = handles w
     \<and> instantiatedModels w' = (instantiatedModels w)(instantiatedModelId args := None)"
  by (auto simp: callDisposeInstantiatedModel_def del_item_def split: option.splits)

text \<open>
  Claim C1 says that a dispose call invokes the dispose capability stored in the handle,
  that a dispose arriving before the instantiation resolves has the model's dispose
  capability invoked once the instantiation completes, and that the id is absent from
  \<^verbatim>\<open>instantiatedModels\<close> when the dispose call returns. The code at both sequences of
  calls: after the dispose call the id is absent, but the trace holds no call of the
  model's \<^verbatim>\<open>dispose\<close>, neither for the model that was ready nor, once the instantiation
  has completed, for the one disposed of while it was instantiating; that handle is not
  marked as disposed and its future resolves to the model.
\<close>

theorem callDisposeInstantiatedModel_never_disposes:
  "instantiatedModels ready_model ''m'' = Some 0
   \<and> stored_dispose (handles ready_model 0) = Dispose2 (PyObj 7)
   \<and> fst (callDisposeInstantiatedModel example_args ready_model) = Inr None
   \<and> calls (snd (callDisposeInstantiatedModel example_args ready_model))
       = [CreateStateLoaderMap, UserInstantiateModel]
   \<and> instantiatedModels (snd (callDisposeInstantiatedModel example_args ready_model)) ''m'' = None
   \<and> calls disposed_while_instantiating = [CreateStateLoaderMap, UserInstantiateModel]
   \<and> disposed (handles disposed_while_instantiating 0) = False
   \<and> modelFuture (handles disposed_while_instantiating 0) = Done (PyObj 7)
   \<and> instantiatedModels disposed_while_instantiating ''m'' = None"
  unfolding disposed_while_instantiating_def instantiating_eq
  by (simp add: ready_model_eq callDisposeInstantiatedModel_def callInstantiateModel_finish_def
      del_item_def loaded_world_eq init_world_def example_args_def set_result_def Let_def)

section \<open>The dispatcher\<close>

text \<open>
  Claim C3 says that the method table has a handler for each control method, among them
  the cancellation of a training session. The code: \<^verbatim>\<open>rpc\<close> has seven entries, none of
  which is \<^verbatim>\<open>callCancelTrain\<close>, and a control frame that names it, for a session that is
  active, ends in KeyError with no callback called.
\<close>

theorem rpc_has_no_cancel_handler:
  "map_of rpc ''callCancelTrain'' = None \<and> map_of rpc ''cancelTrain'' = None
   \<and> CallCancelTrain \<notin> snd ` set rpc
   \<and> map snd rpc = [Initialize, CallCreateModelState, CallInstantiateModel,
                      CallDisposeInstantiatedModel, CallTrain, CallEvaluate, CallGetModelState]
   \<and> processMessage
        (\<lambda>buf. Inr \<lparr>method_name = ''callCancelTrain'', params = example_args\<rparr>)
        (\<lambda>v. []) (\<lambda>e. []) u [] (training_world [Callback 1 None])
      = Some (Inl KeyError, training_world [Callback 1 None])"
  by (simp add: rpc_def processMessage_def)

text \<open>
  Claim C8, as amended. For every incoming control frame whose segment is malformed JSON
  or whose JSON names a method absent from the method table, \<^verbatim>\<open>processMessage\<close> ends with
  the exception of the parser or with KeyError before any handler runs: no reply is sent,
  with or without a correlation id, and the state (instantiated models, training
  sessions, messages sent, pending requests) is the one before the call, so that other
  calls are not affected.
\<close>

theorem processMessage_raises_before_dispatch:
  "(loads buf = Inl e \<longrightarrow> processMessage loads dumps format_exc u buf w = Some (Inl e, w))
   \<and> (loads buf = Inr parsed \<and> method_name parsed \<notin> fst ` set rpc \<longrightarrow>
        processMessage loads dumps format_exc u buf w = Some (Inl KeyError, w))"
proof (intro conjI impI)
  assume "loads buf = Inl e"
  then show "processMessage loads dumps format_exc u buf w = Some (Inl e, w)"
    by (simp add: processMessage_def)
next
  assume a: "loads buf = Inr parsed \<and> method_name parsed \<notin> fst ` set rpc"
  then have "map_of rpc (method_name parsed) = None"
    by (simp add: map_of_eq_None_iff)
  with a show "processMessage loads dumps format_exc u buf w = Some (Inl KeyError, w)"
    by (simp add: processMessage_def)
qed

text \<open>The witness of C8: a segment the parser rejects and a frame naming the method
  \<open>unknown\<close>, in a state with an instantiated model.\<close>

theorem processMessage_raises_before_dispatch_witness:
  "processMessage (\<lambda>buf. Inl JSONDecodeError) (\<lambda>v. []) (\<lambda>e. []) example_user [123] ready_model
     = Some (Inl JSONDecodeError, ready_model)
   \<and> ''unknown'' \<notin> fst ` set rpc
   \<and> processMessage (\<lambda>buf. Inr \<lparr>method_name = ''unknown'', params = example_args\<rparr>)
        (\<lambda>v. []) (\<lambda>e. []) example_user [123] ready_model
     = Some (Inl KeyError, ready_model)"
proof -
  have n: "''unknown'' \<notin> fst ` set rpc"
    by (simp add: rpc_def)
  show ?thesis
    using processMessage_raises_before_dispatch
            [where loads = "\<lambda>buf. Inl JSONDecodeError" and buf = "[123]" and e = JSONDecodeError
               and dumps = "\<lambda>v. []" and format_exc = "\<lambda>e. []" and u = example_user
               and w = ready_model]
          processMessage_raises_before_dispatch
            [where loads = "\<lambda>buf. Inr \<lparr>method_name = ''unknown'', params = example_args\<rparr>"
               and buf = "[123]" and parsed = "\<lparr>method_name = ''unknown'', params = example_args\<rparr>"
               and dumps = "\<lambda>v. []" and format_exc = "\<lambda>e. []" and u = example_user
               and w = ready_model]
          n
    by simp
qed

text \<open>The counterexample of C8 as it was stated: a frame with the correlation id 1 that
  names the method \<open>unknown\<close>; the call ends in KeyError and nothing has been sent.\<close>

theorem processMessage_unknown_method_no_reply:
  "arg_id example_args = Some (PyInt 1)
   \<and> processMessage (\<lambda>buf. Inr \<lparr>method_name = ''unknown'', params = example_args\<rparr>)
        (\<lambda>v. []) (\<lambda>e. []) example_user [123] init_world
     = Some (Inl KeyError, init_world)
   \<and> outbox init_world = []"
  by (simp add: processMessage_def rpc_def example_args_def init_world_def)

section \<open>No execution disposes of a model or cancels a training session\<close>

text \<open>
  Since \<^verbatim>\<open>callDisposeInstantiatedModel\<close> calls neither closure, the variable \<^verbatim>\<open>disposed\<close>
  of an instantiation stays \<^verbatim>\<open>False\<close>, the branch of line 146 is never taken, and the
  \<^verbatim>\<open>dispose\<close> capability of a model is called in no state the runtime can reach. Since
  \<^verbatim>\<open>callCancelTrain\<close> is not in \<^verbatim>\<open>rpc\<close>, no cancellation callback is called and no tracker
  gets the attribute \<^verbatim>\<open>cancelled\<close> in any of these states either.
\<close>

lemmas never_called_defs = never_called_def never_disposed_def never_cancelled_def

lemma never_called_snd:
  "never_called (snd x) \<Longrightarrow> x = (r, w') \<Longrightarrow> never_called w'"
  by simp

lemma record_call_never_called:
  "never_called w \<Longrightarrow> (\<forall>model. c \<noteq> UserDispose model) \<Longrightarrow> (\<forall>n. c \<noteq> Cancel n)
     \<Longrightarrow> never_called (record_call c w)"
  by (auto simp: never_called_defs record_call_def)

lemma sendEventToParent_never_called:
  "never_called w \<Longrightarrow> never_called (snd (sendEventToParent dumps event ps segs w))"
  by (auto simp: sendEventToParent_def sendMessageToParent_def never_called_defs Let_def
      split: sum.splits)

lemma fold_record_call_never_called:
  "never_called w \<Longrightarrow> never_called (fold (\<lambda>x. record_call CreateStateLoaderMap) xs w)"
  by (induction xs arbitrary: w) (simp_all add: record_call_never_called)

lemma never_called_runningProgram:
  "never_called w \<Longrightarrow> never_called (w\<lparr>runningProgram := model\<rparr>)"
  by (simp add: never_called_defs)

lemma initialize_never_called:
  assumes "never_called w"
  shows "never_called (snd (initialize dumps loaded w))"
proof (cases loaded)
  case (Raised tb)
  have "snd (initialize dumps loaded w)
          = snd (sendEventToParent dumps ''modelSessionInitialized''
                   (PyDict [(''error'', getErrorFromException tb)]) [] w)"
    using Raised by (simp add: initialize_def split: prod.splits sum.splits)
  then show ?thesis
    using sendEventToParent_never_called [OF assms] by simp
next
  case (Returned model)
  have "snd (initialize dumps loaded w)
          = snd (sendEventToParent dumps ''modelSessionInitialized'' (PyDict []) []
                   (w\<lparr>runningProgram := model\<rparr>))"
    using Returned by (simp add: initialize_def split: prod.splits sum.splits)
  then show ?thesis
    using sendEventToParent_never_called [OF never_called_runningProgram [OF assms]] by simp
qed

lemma callCreateModelState_never_called:
  assumes "never_called w"
  shows "never_called (snd (callCreateModelState format_exc res args w))"
proof -
  have 1: "never_called (record_call CreateDataLoaderMap w)"
    using assms by (simp add: record_call_never_called)
  then have 2: "never_called (record_call CreateStateProvider (record_call CreateDataLoaderMap w))"
    by (simp add: record_call_never_called)
  have 3: "never_called
            (fold (\<lambda>other_model_state. record_call CreateStateLoaderMap) (otherModelStates args)
               (record_call CreateStateProvider (record_call CreateDataLoaderMap w)))"
    using fold_record_call_never_called [OF 2] .
  then have 4: "never_called (record_call UserCreateModelState
            (fold (\<lambda>other_model_state. record_call CreateStateLoaderMap) (otherModelStates args)
               (record_call CreateStateProvider (record_call CreateDataLoaderMap w))))"
    by (simp add: record_call_never_called)
  show ?thesis
    using 1 3 4
    by (simp add: callCreateModelState_def Let_def split: option.splits outcome.splits)
qed

lemma callInstantiateModel_begin_never_called:
  "never_called w \<Longrightarrow> never_called (snd (snd (callInstantiateModel_begin args w)))"
  by (auto simp: callInstantiateModel_begin_def never_called_defs record_call_def Let_def
      split: option.splits)

lemma callInstantiateModel_finish_never_called:
  "never_called w \<Longrightarrow> never_called (snd (callInstantiateModel_finish dres res args h w))"
  by (auto simp: callInstantiateModel_finish_def never_called_defs set_result_def
      del_item_def Let_def split: outcome.splits sum.splits prod.splits future.splits if_splits)

lemma callDisposeInstantiatedModel_never_called:
  "never_called w \<Longrightarrow> never_called (snd (callDisposeInstantiatedModel args w))"
  by (auto simp: callDisposeInstantiatedModel_def never_called_defs del_item_def
      split: option.splits)

lemma callTrain_finish_never_called:
  "never_called w \<Longrightarrow> never_called (snd (callTrain_finish res args t w))"
  by (auto simp: callTrain_finish_def never_called_defs del_item_def Let_def
      split: outcome.splits)

lemma callTrain_run_never_called:
  assumes "never_called w"
  shows "never_called (snd (callTrain_run format_exc args t model w))"
proof -
  have 1: "never_called (record_call CreateDataLoaderMap w)"
    using assms by (simp add: record_call_never_called)
  then have 2: "never_called (record_call (UserTrain model t) (record_call CreateDataLoaderMap w))"
    by (simp add: record_call_never_called)
  show ?thesis
    using 2 callTrain_finish_never_called [OF 1]
    by (auto simp: callTrain_run_def Let_def split: option.splits prod.splits
        dest: never_called_snd)
qed

lemma callTrain_begin_never_called:
  assumes "never_called w"
  shows "never_called (snd (snd (callTrain_begin format_exc args w)))"
proof -
  let ?w2 = "w\<lparr>next_ref := Suc (next_ref w),
               trackers := (trackers w)(next_ref w := TrainTracker_init (trainingSessionId args)),
               trainingSessions := (trainingSessions w)(trainingSessionId args \<mapsto> next_ref w)\<rparr>"
  have "never_called ?w2"
    using assms by (simp add: never_called_defs TrainTracker_init_def)
  from this callTrain_run_never_called [OF this] show ?thesis
    by (auto simp: callTrain_begin_def Let_def split: option.splits stored_model.splits)
qed

lemma callTrain_model_never_called:
  "never_called w \<Longrightarrow> never_called (snd (callTrain_model format_exc args t h w))"
  using callTrain_run_never_called [of w format_exc args t]
  by (auto simp: callTrain_model_def split: future.splits)

lemma callEvaluate_run_never_called:
  assumes "never_called w"
  shows "never_called (snd (callEvaluate_run format_exc res model w))"
proof -
  have 1: "never_called (record_call CreateDataLoaderMap w)"
    using assms by (simp add: record_call_never_called)
  then have 2: "never_called (record_call (UserEvaluate model) (record_call CreateDataLoaderMap w))"
    by (simp add: record_call_never_called)
  show ?thesis
    using 1 2
    by (simp add: callEvaluate_run_def Let_def
        split: option.splits outcome.splits pyval.splits sum.splits prod.splits)
qed

lemma callGetModelState_run_never_called:
  assumes "never_called w"
  shows "never_called (snd (callGetModelState_run format_exc res args model w))"
proof -
  have 1: "never_called (record_call CreateStateProvider w)"
    using assms by (simp add: record_call_never_called)
  then have 2: "never_called (record_call (UserGetModelState model) (record_call CreateStateProvider w))"
    by (simp add: record_call_never_called)
  show ?thesis
    using assms 1 2
    by (simp add: callGetModelState_run_def Let_def split: option.splits outcome.splits)
qed

lemma callEvaluate_begin_never_called:
  "never_called w \<Longrightarrow> never_called (snd (callEvaluate_begin format_exc res args w))"
  using callEvaluate_run_never_called [of w format_exc res]
  by (auto simp: callEvaluate_begin_def split: option.splits stored_model.splits prod.splits
      dest: never_called_snd)

lemma callEvaluate_model_never_called:
  "never_called w \<Longrightarrow> never_called (snd (callEvaluate_model format_exc res h w))"
  using callEvaluate_run_never_called [of w format_exc res]
  by (auto simp: callEvaluate_model_def split: future.splits prod.splits
      dest: never_called_snd)

lemma callGetModelState_begin_never_called:
  "never_called w \<Longrightarrow> never_called (snd (callGetModelState_begin format_exc res args w))"
  using callGetModelState_run_never_called [of w format_exc res args]
  by (auto simp: callGetModelState_begin_def split: option.splits stored_model.splits prod.splits
      dest: never_called_snd)

lemma callGetModelState_model_never_called:
  "never_called w \<Longrightarrow> never_called (snd (callGetModelState_model format_exc res args h w))"
  using callGetModelState_run_never_called [of w format_exc res args]
  by (auto simp: callGetModelState_model_def split: future.splits prod.splits
      dest: never_called_snd)

lemma progress_never_called:
  "never_called w \<Longrightarrow> never_called (snd (progress dumps self p w))"
  using sendEventToParent_never_called [of w dumps]
  by (auto simp: progress_def)

lemma metrics_never_called:
  "never_called w \<Longrightarrow> never_called (snd (metrics dumps self m w))"
  using sendEventToParent_never_called [of w dumps]
  by (auto simp: metrics_def split: pyval.splits sum.splits prod.splits)

lemma reachable_never_called: "reachable w \<Longrightarrow> never_called w"
proof (induction rule: reachable.induct)
  case start
  show ?case by (simp add: never_called_defs init_world_def TrainTracker_init_def)
next
  case (user_on_cancel w t cb)
  then show ?case by (simp add: never_called_defs on_cancel_def)
next
  case (reply w finalBuffer)
  then show ?case by (simp add: never_called_defs sendMessageToParent_def)
qed (simp_all add: initialize_never_called callCreateModelState_never_called
      callInstantiateModel_begin_never_called callInstantiateModel_finish_never_called
      callDisposeInstantiatedModel_never_called callTrain_begin_never_called
      callTrain_model_never_called callTrain_finish_never_called
      callEvaluate_begin_never_called callEvaluate_model_never_called
      callGetModelState_begin_never_called callGetModelState_model_never_called
      progress_never_called metrics_never_called)

lemma reachable_never_disposed: "reachable w \<Longrightarrow> never_disposed w"
  using reachable_never_called by (simp add: never_called_def)

lemma reachable_never_cancelled: "reachable w \<Longrightarrow> never_cancelled w"
  using reachable_never_called by (simp add: never_called_def)

text \<open>The example states are among them.\<close>

lemma reachable_callInstantiateModel:
  assumes "reachable w"
  shows "reachable (snd (callInstantiateModel format_exc dres res args w))"
proof -
  obtain h l w1 where b: "callInstantiateModel_begin args w = (h, l, w1)"
    by (cases "callInstantiateModel_begin args w" rule: prod_cases3)
  have "reachable w1"
    using reachable.run_instantiate_begin [OF assms, of args] b by simp
  then show ?thesis
    by (cases l) (simp_all add: callInstantiateModel_def b reachable.run_instantiate_finish)
qed

lemma reachable_loaded_world: "reachable loaded_world"
  unfolding loaded_world_def by (intro reachable.run_initialize reachable.start)

lemma reachable_ready_model: "reachable ready_model"
  unfolding ready_model_def by (intro reachable_callInstantiateModel reachable_loaded_world)

lemma reachable_disposed_while_instantiating: "reachable disposed_while_instantiating"
  unfolding disposed_while_instantiating_def
  by (intro reachable.run_instantiate_finish reachable.run_dispose
      reachable.run_instantiate_begin reachable_loaded_world)

lemma reachable_active_training: "reachable active_training"
proof -
  let ?w = "snd (snd (callTrain_begin (\<lambda>e. []) example_args ready_model))"
  let ?w1 = "?w\<lparr>trackers := (trackers ?w)(1 := on_cancel (Callback 1 None) (trackers ?w 1))\<rparr>"
  have "reachable ?w"
    by (intro reachable.run_train_begin reachable_ready_model)
  then have "reachable ?w1"
    by (rule reachable.user_on_cancel)
  then have "reachable (?w1\<lparr>trackers :=
                 (trackers ?w1)(1 := on_cancel (Callback 2 None) (trackers ?w1 1))\<rparr>)"
    by (rule reachable.user_on_cancel)
  then show ?thesis
    by (simp add: active_training_def Let_def)
qed

text \<open>What one control frame does is a run of such pieces, so \<^verbatim>\<open>processMessage\<close> leads
  from a state the runtime can be in to another one: whatever frame arrives, no
  cancellation callback is called and no model is disposed of.\<close>

lemma reachable_callTrain:
  assumes "reachable w" and "callTrain format_exc res args w = Some (r, w')"
  shows "reachable w'"
proof -
  obtain t st w1 where b: "callTrain_begin format_exc args w = (t, st, w1)"
    by (cases "callTrain_begin format_exc args w" rule: prod_cases3)
  have r1: "reachable w1"
    using reachable.run_train_begin [OF assms(1), of format_exc args] b by simp
  show ?thesis
  proof (cases st)
    case (Return x)
    then show ?thesis using assms(2) b r1 by (simp add: callTrain_def)
  next
    case AwaitUser
    then have "w' = snd (callTrain_finish res args t w1)"
      using assms(2) b by (simp add: callTrain_def)
    then show ?thesis using r1 by (simp add: reachable.run_train_finish)
  next
    case (AwaitModel m)
    obtain st2 w2 where c: "callTrain_model format_exc args t m w1 = (st2, w2)"
      by (cases "callTrain_model format_exc args t m w1")
    have r2: "reachable w2"
      using reachable.run_train_model [OF r1, of format_exc args t m] c by simp
    show ?thesis
    proof (cases st2)
      case (Return x)
      then show ?thesis using assms(2) b c AwaitModel r2 by (simp add: callTrain_def)
    next
      case AwaitUser
      then have "w' = snd (callTrain_finish res args t w2)"
        using assms(2) b c AwaitModel by (simp add: callTrain_def)
      then show ?thesis using r2 by (simp add: reachable.run_train_finish)
    next
      case (AwaitModel m')
      then show ?thesis using assms(2) b c \<open>st = AwaitModel m\<close> by (simp add: callTrain_def)
    qed
  qed
qed

lemma reachable_callEvaluate:
  assumes "reachable w" and "callEvaluate format_exc res args w = Some (r, w')"
  shows "reachable w'"
proof -
  obtain st w1 where b: "callEvaluate_begin format_exc res args w = (st, w1)"
    by (cases "callEvaluate_begin format_exc res args w")
  have r1: "reachable w1"
    using reachable.run_evaluate_begin [OF assms(1), of format_exc res args] b by simp
  show ?thesis
  proof (cases st)
    case (Return x)
    then show ?thesis using assms(2) b r1 by (simp add: callEvaluate_def)
  next
    case AwaitUser
    then show ?thesis using assms(2) b by (simp add: callEvaluate_def)
  next
    case (AwaitModel m)
    obtain st2 w2 where c: "callEvaluate_model format_exc res m w1 = (st2, w2)"
      by (cases "callEvaluate_model format_exc res m w1")
    have "reachable w2"
      using reachable.run_evaluate_model [OF r1, of format_exc res m] c by simp
    then show ?thesis
      using assms(2) b c AwaitModel by (cases st2) (simp_all add: callEvaluate_def)
  qed
qed

lemma reachable_callGetModelState:
  assumes "reachable w" and "callGetModelState format_exc res args w = Some (r, w')"
  shows "reachable w'"
proof -
  obtain st w1 where b: "callGetModelState_begin format_exc res args w = (st, w1)"
    by (cases "callGetModelState_begin format_exc res args w")
  have r1: "reachable w1"
    using reachable.run_getModelState_begin [OF assms(1), of format_exc res args] b by simp
  show ?thesis
  proof (cases st)
    case (Return x)
    then show ?thesis using assms(2) b r1 by (simp add: callGetModelState_def)
  next
    case AwaitUser
    then show ?thesis using assms(2) b by (simp add: callGetModelState_def)
  next
    case (AwaitModel m)
    obtain st2 w2 where c: "callGetModelState_model format_exc res args m w1 = (st2, w2)"
      by (cases "callGetModelState_model format_exc res args m w1")
    have "reachable w2"
      using reachable.run_getModelState_model [OF r1, of format_exc res args m] c by simp
    then show ?thesis
      using assms(2) b c AwaitModel by (cases st2) (simp_all add: callGetModelState_def)
  qed
qed

lemma rpc_handler_not_cancel: "map_of rpc name = Some h \<Longrightarrow> h \<noteq> CallCancelTrain"
  by (auto simp: rpc_def split: if_splits)

lemma reachable_run_handler:
  assumes "reachable w" and "h \<noteq> CallCancelTrain"
    and "run_handler dumps format_exc u h args w = Some (r, w')"
  shows "reachable w'"
proof (cases h)
  case Initialize
  then have "w' = snd (initialize dumps (load_module u) w)" using assms(3) by auto
  then show ?thesis using assms(1) by (simp add: reachable.run_initialize)
next
  case CallCreateModelState
  then have "w' = snd (callCreateModelState format_exc (createModelState_res u) args w)"
    using assms(3) by auto
  then show ?thesis using assms(1) by (simp add: reachable.run_createModelState)
next
  case CallInstantiateModel
  then have "w' = snd (callInstantiateModel format_exc (dispose_res u) (instantiateModel_res u) args w)"
    using assms(3) by auto
  then show ?thesis using assms(1) by (simp add: reachable_callInstantiateModel)
next
  case CallDisposeInstantiatedModel
  then have "w' = snd (callDisposeInstantiatedModel args w)" using assms(3) by auto
  then show ?thesis using assms(1) by (simp add: reachable.run_dispose)
next
  case CallTrain
  then show ?thesis using assms(1,3) reachable_callTrain by simp
next
  case CallCancelTrain
  then show ?thesis using assms(2) by simp
next
  case CallEvaluate
  then show ?thesis using assms(1,3) reachable_callEvaluate by simp
next
  case CallGetModelState
  then show ?thesis using assms(1,3) reachable_callGetModelState by simp
qed

lemma reachable_processMessage:
  assumes "reachable w" and "processMessage loads dumps format_exc u buf w = Some (r, w')"
  shows "reachable w'"
proof (cases "loads buf")
  case (Inl e)
  then show ?thesis using assms by (simp add: processMessage_def)
next
  case (Inr parsed)
  show ?thesis
  proof (cases "map_of rpc (method_name parsed)")
    case None
    then show ?thesis using assms Inr by (simp add: processMessage_def)
  next
    case (Some h)
    then have nc: "h \<noteq> CallCancelTrain" by (rule rpc_handler_not_cancel)
    from assms(2) Inr Some obtain r1 w1 where
      run: "run_handler dumps format_exc u h (params parsed) w = Some (r1, w1)"
      by (cases "run_handler dumps format_exc u h (params parsed) w")
        (auto simp: processMessage_def)
    have r1: "reachable w1"
      using reachable_run_handler [OF assms(1) nc run] .
    have "w' = w1 \<or> (\<exists>finalBuffer. w' = sendMessageToParent finalBuffer w1)"
      using assms(2) Inr Some run
      by (auto simp: processMessage_def Let_def split: sum.splits option.splits)
    then show ?thesis
      using r1 by (auto intro: reachable.reply)
  qed
qed

lemma no_frame_cancels:
  assumes "reachable w" and "processMessage loads dumps format_exc u buf w = Some (r, w')"
  shows "(\<forall>n. Cancel n \<notin> set (calls w')) \<and> (\<forall>t. cancelled (trackers w' t) = None)"
  using reachable_never_cancelled [OF reachable_processMessage [OF assms]]
  by (simp add: never_cancelled_def)

lemma no_frame_disposes:
  assumes "reachable w" and "processMessage loads dumps format_exc u buf w = Some (r, w')"
  shows "(\<forall>h. \<not> disposed (handles w' h)) \<and> (\<forall>model. UserDispose model \<notin> set (calls w'))"
  using reachable_never_disposed [OF reachable_processMessage [OF assms]]
  by (simp add: never_disposed_def)

section \<open>The frames the inbound decoder reads\<close>

text \<open>A control frame from the host is the tag 0, a length on 8 bytes and one segment; a
  data frame is a tag other than 0, the request id and the number of segments on 4 bytes
  each, and the length-prefixed segments.\<close>

lemma read_message_control:
  assumes "length buf < 2 ^ 64"
  shows "read_message ([0] @ big_endian 8 (length buf) @ buf @ rest) = Inr (RPC buf, rest)"
proof -
  have "from_bytes (big_endian 8 (length buf)) = length buf"
    using assms by (simp add: from_bytes_big_endian)
  then show ?thesis
    by (simp add: read_message_def readexactly_def length_big_endian)
qed

lemma read_message_data:
  assumes "tag \<noteq> 0" and "request_id < 2 ^ 32" and "length data < 2 ^ 32"
    and "\<forall>el \<in> set data. length el < 2 ^ 64"
  shows "read_message ([tag] @ big_endian 4 request_id @ big_endian 4 (length data)
                         @ concat (map segment_bytes data) @ rest)
           = Inr (ProvideData request_id data, rest)"
proof -
  have "from_bytes (big_endian 4 request_id) = request_id"
    and "from_bytes (big_endian 4 (length data)) = length data"
    using assms(2,3) by (simp_all add: from_bytes_big_endian)
  then show ?thesis
    using assms(1) read_segments_layout [OF assms(4), of rest]
    by (simp add: read_message_def readexactly_def length_big_endian del: read_segments.simps)
qed

end
